theory Spec2Isabelle
  imports Main "HOL-Library.Word"
begin

unbundle bit_operations_syntax

section \<open>Data model of \<^verbatim>\<open>wamd/protocol.py\<close>\<close>

text \<open>
  The theory embeds \<^verbatim>\<open>MultiDeviceWhatsAppClientProtocol\<close>, its factory and
  \<^verbatim>\<open>FailureHandler\<close>. Python \<^verbatim>\<open>bytes\<close> are lists of 8-bit words,
  Python's unbounded integers are \<open>int\<close> (\<open>nat\<close> where the source only counts),
  exceptions are values of \<open>exn\<close>, and every mutation of \<^verbatim>\<open>self\<close> or of
  \<^verbatim>\<open>self.factory\<close> is an update of the connection record that the function returns.
\<close>

type_synonym byte = "8 word"
type_synonym bytes = "byte list"

subsection \<open>Exceptions\<close>

text \<open>
  \<^verbatim>\<open>ConnectionClosedError\<close> is constructed with keyword arguments only; the model
  keeps the keywords the call site passes (\<open>None\<close> where the call site leaves the
  keyword out), since the defaults are declared in \<^verbatim>\<open>errors.py\<close>.
  \<open>OtherError\<close> stands for any exception raised by a library the source calls.
\<close>

datatype exn =
    ConnectionClosedError (isLoggedOut: "bool option") (isAuthDone: "bool option") (reason: string)
  | AuthenticationFailedError string
  | StreamEndError
  | NodeStreamError (code: string)
  | NameError string
  | AttributeError string
  | IndexError string
  | KeyError string
  | ValueError string
  | OtherError string

subsection \<open>Nodes\<close>

datatype Node = Node (tag: string) (attributes: "(string \<times> string) list") (content: Content)
and Content = NoContent | Bytes bytes | Child Node | Children "Node list"

text \<open>
  Modelled from the spec: \<^verbatim>\<open>Node.__getitem__\<close> (\<^verbatim>\<open>coder.py\<close>) is the lookup in the
  node's attribute mapping (string to string); an absent attribute is \<open>None\<close>.
\<close>

definition Node_getitem :: "Node \<Rightarrow> string \<Rightarrow> string option" where
  "Node_getitem node k = map_of (attributes node) k"

subsection \<open>Deferreds, cipher states, the AuthState\<close>

text \<open>
  A \<^verbatim>\<open>Deferred\<close> is an index into the store \<open>deferreds\<close> of the connection;
  the store holds whether it is still pending, was called back, or was failed and with
  which exception.
\<close>

datatype dstate = Pending | Succeeded | Failed exn

text \<open>
  The post-handshake \<^verbatim>\<open>CipherState\<close> of the Noise library: a key and a nonce that
  counts the frames sealed or opened.
\<close>

record CipherState =
  ck :: bytes
  cn :: nat

record KeyPair =
  publicKey :: bytes
  privateKey :: bytes

record SignedPreKey =
  getId :: int
  getKeyPair :: KeyPair
  getSignature :: bytes

record AuthState =
  noiseKey :: KeyPair
  signedIdentityKey :: KeyPair
  signedPrekey :: SignedPreKey
  registrationId :: int
  me :: "(string \<rightharpoonup> string) option"

subsection \<open>What the connection does to the outside\<close>

text \<open>
  \<open>SendMessage\<close> is one websocket binary message written with \<^verbatim>\<open>sendMessage\<close>,
  \<open>SendClose\<close> a call of \<^verbatim>\<open>sendClose(code=...)\<close>, \<open>FireOpen\<close> and
  \<open>FireClose\<close> the events fired with \<^verbatim>\<open>self.fire\<close>, and \<open>Dispatched\<close> records
  each node handed to \<^verbatim>\<open>messageNodeReceived\<close>.
\<close>

datatype effect =
    SendMessage bytes
  | SendClose nat
  | FireOpen
  | FireClose exn
  | Dispatched Node

subsection \<open>Factory and connection\<close>

record 'a Factory =
  readyDeferred :: "nat option"
  authDeferred :: "nat option"
  f_authState :: "'a option"

text \<open>
  \<open>'h\<close> is the type of the Noise \<^verbatim>\<open>HandshakeState\<close> object. \<open>keepAliveLoop\<close>
  holds the \<^verbatim>\<open>running\<close> flag of the \<^verbatim>\<open>LoopingCall\<close> when there is one.
\<close>

record 'h Conn =
  authState :: "AuthState option"
  pendingRequest :: "string option \<rightharpoonup> nat"
  noiseHandshakeState :: "'h option"
  recvCipher :: "CipherState option"
  sendCipher :: "CipherState option"
  serverHelloDeferred :: "nat option"
  failure :: "exn option"
  keepAliveLoop :: "bool option"
  messageTagCounter :: nat
  messageTagPrefix :: "string option"
  factory :: "AuthState Factory"
  deferreds :: "dstate list"
  effects :: "effect list"

text \<open>The state of a protocol instance right after \<^verbatim>\<open>__init__\<close> and \<^verbatim>\<open>buildProtocol\<close>.\<close>

definition newConn :: "AuthState option \<Rightarrow> AuthState Factory \<Rightarrow> dstate list \<Rightarrow> 'h Conn" where
  "newConn a f ds =
     \<lparr> authState = a, pendingRequest = Map.empty, noiseHandshakeState = None,
       recvCipher = None, sendCipher = None, serverHelloDeferred = None,
       failure = None, keepAliveLoop = None, messageTagCounter = 0,
       messageTagPrefix = None, factory = f, deferreds = ds, effects = [] \<rparr>"

text \<open>\<^verbatim>\<open>Deferred()\<close>: a fresh pending deferred.\<close>

definition newDeferred :: "'h Conn \<Rightarrow> nat \<times> 'h Conn" where
  "newDeferred c = (length (deferreds c), c\<lparr>deferreds := deferreds c @ [Pending]\<rparr>)"

text \<open>\<^verbatim>\<open>d.errback(failure)\<close> and \<^verbatim>\<open>d.callback(value)\<close>.\<close>

definition errback :: "nat \<Rightarrow> exn \<Rightarrow> 'h Conn \<Rightarrow> 'h Conn" where
  "errback d e c = c\<lparr>deferreds := (deferreds c)[d := Failed e]\<rparr>"

definition callback :: "nat \<Rightarrow> 'h Conn \<Rightarrow> 'h Conn" where
  "callback d c = c\<lparr>deferreds := (deferreds c)[d := Succeeded]\<rparr>"

definition emit :: "effect \<Rightarrow> 'h Conn \<Rightarrow> 'h Conn" where
  "emit x c = c\<lparr>effects := effects c @ [x]\<rparr>"

section \<open>The message-id generator\<close>

text \<open>Python's \<^verbatim>\<open>str\<close> on a non-negative integer: its decimal digits.\<close>

definition digit :: "nat \<Rightarrow> char" where
  "digit d = char_of (48 + d)"

fun str_nat :: "nat \<Rightarrow> string" where
  "str_nat n = (if n < 10 then [digit n] else str_nat (n div 10) @ [digit (n mod 10)])"

declare str_nat.simps [simp del]

text \<open>
  \<^verbatim>\<open>_generateMessageId\<close>. The pair \<open>(r1, r2)\<close> is what the two calls of
  \<^verbatim>\<open>generateRandomNumber(5)\<close> return, as \<^verbatim>\<open>%s\<close> prints them; it is read only
  when there is no prefix.
\<close>

definition generateMessageId :: "string \<times> string \<Rightarrow> 'h Conn \<Rightarrow> string \<times> 'h Conn" where
  "generateMessageId r c =
     (let prefix = (case messageTagPrefix c of
                      None \<Rightarrow> fst r @ ''.'' @ snd r
                    | Some p \<Rightarrow> p);
          c1 = c\<lparr>messageTagPrefix := Some prefix\<rparr>;
          suffix = str_nat (messageTagCounter c1 + 1);
          c2 = c1\<lparr>messageTagCounter := messageTagCounter c1 + 1\<rparr>;
          messageTag = prefix @ ''-'' @ suffix;
          c3 = (if messageTagCounter c2 = 99
                then c2\<lparr>messageTagPrefix := None, messageTagCounter := 0\<rparr> else c2)
      in (messageTag, c3))"

text \<open>A sequence of calls, one pair of random values for each.\<close>

fun generateMessageIds :: "(string \<times> string) list \<Rightarrow> 'h Conn \<Rightarrow> string list \<times> 'h Conn" where
  "generateMessageIds [] c = ([], c)"
| "generateMessageIds (r # rs) c =
     (let (t, c1) = generateMessageId r c; (ts, c2) = generateMessageIds rs c1
      in (t # ts, c2))"

text \<open>Reading a decimal string back, to show that \<open>str_nat\<close> is injective.\<close>

definition nat_of_str :: "string \<Rightarrow> nat" where
  "nat_of_str s = foldl (\<lambda>a ch. 10 * a + (of_char ch - 48)) 0 s"

text \<open>The prefix a call of \<^verbatim>\<open>_generateMessageId\<close> prints: the stored one, or a fresh one.\<close>

definition currentPrefix :: "string \<times> string \<Rightarrow> 'h Conn \<Rightarrow> string" where
  "currentPrefix r c =
     (case messageTagPrefix c of None \<Rightarrow> fst r @ ''.'' @ snd r | Some p \<Rightarrow> p)"

section \<open>Helpers of \<^verbatim>\<open>coder.py\<close>\<close>

text \<open>
  Modelled from the spec: \<^verbatim>\<open>encodeInt(value, length)\<close> and
  \<^verbatim>\<open>decodeInt(data, length)\<close> live in \<^verbatim>\<open>coder.py\<close>, which is not among the
  sources. The spec describes them as the big-endian encoding of an integer on
  \<open>length\<close> bytes (``big-endian 24-bit length'', ``32-bit big-endian of
  registrationId'') and its inverse. \<open>encodeInt\<close> keeps the low \<open>length\<close> bytes of
  the value; \<open>decodeInt\<close> reads the bytes that are there, at most \<open>length\<close>.
\<close>

definition encodeInt :: "int \<Rightarrow> nat \<Rightarrow> bytes" where
  "encodeInt v n = map (\<lambda>i. word_of_int (v div 256 ^ (n - 1 - i))) [0..<n]"

definition decodeInt :: "bytes \<Rightarrow> nat \<Rightarrow> nat" where
  "decodeInt data n = foldl (\<lambda>acc b. acc * 256 + unat b) 0 (take n data)"

section \<open>Protobuf messages\<close>

record ServerHello =
  sh_ephemeral :: bytes
  sh_static :: bytes
  sh_payload :: bytes

record NoiseCertificate =
  details :: bytes
  signature :: bytes

text \<open>\<open>expires\<close> is \<open>None\<close> when \<^verbatim>\<open>HasField("expires")\<close> is false.\<close>

record Details =
  issuer :: string
  key :: bytes
  expires :: "int option"

text \<open>
  Python's protobuf checks the range of an integer on assignment to an integer field and
  raises \<^verbatim>\<open>ValueError\<close> outside it. The range is that of the field's declared type.
\<close>

datatype pb_int = PB_int32 | PB_int64 | PB_uint32 | PB_uint64

fun pb_in_range :: "pb_int \<Rightarrow> int \<Rightarrow> bool" where
  "pb_in_range PB_int32 v = (- (2 ^ 31) \<le> v \<and> v < 2 ^ 31)"
| "pb_in_range PB_int64 v = (- (2 ^ 63) \<le> v \<and> v < 2 ^ 63)"
| "pb_in_range PB_uint32 v = (0 \<le> v \<and> v < 2 ^ 32)"
| "pb_in_range PB_uint64 v = (0 \<le> v \<and> v < 2 ^ 64)"

record AppVersion =
  primary :: "int option"
  secondary :: "int option"
  tertiary :: "int option"

record CompanionProps =
  os :: string
  version :: AppVersion
  platformType :: int
  requireFullSync :: bool

record CompanionRegData =
  buildHash :: bytes
  companionProps :: bytes
  eRegid :: bytes
  eKeytype :: bytes
  eIdent :: bytes
  eSkeyId :: bytes
  eSkeyVal :: bytes
  eSkeySig :: bytes

record UserAgent =
  appVersion :: AppVersion
  platform :: int
  releaseChannel :: int
  mcc :: string
  mnc :: string
  osVersion :: string
  manufacturer :: string
  ua_device :: string
  osBuildNumber :: string
  localeLanguageIso6391 :: string
  localeCountryIso31661Alpha2 :: string

record WebInfo =
  webSubPlatform :: int

text \<open>
  The fields of \<^verbatim>\<open>ClientPayload\<close> that only one of the two modes sets are options:
  \<open>None\<close> is a field the builder never assigned.
\<close>

record ClientPayload =
  connectReason :: int
  connectType :: int
  cp_passive :: bool
  regData :: "CompanionRegData option"
  username :: "int option"
  device :: "int option"
  userAgent :: UserAgent
  webInfo :: WebInfo

section \<open>The environment: constants and libraries\<close>

text \<open>
  \<^verbatim>\<open>constants.py\<close> is not among the sources; the constants the protocol reads are
  parameters.
\<close>

record Constants =
  PROLOGUE :: bytes
  CERTIFICATE_ISSUER :: string
  WHATSAPP_LONG_TERM :: bytes
  FLAG_COMPRESSED :: byte
  BUILD_HASH :: string
  DEFAULT_BROWSER_KIND :: "string \<times> string \<times> string"
  WHATSAPP_WEB_VERSION :: "int \<times> int \<times> int"

text \<open>
  What the protocol calls in other modules and libraries, as parameters: the Noise
  handshake object (\<open>noise_*\<close>), the AEAD cipher of a \<^verbatim>\<open>CipherState\<close>, signature
  verification, the protobuf parsers and serialisers, the binary node reader and writer,
  \<^verbatim>\<open>inflate\<close>, \<^verbatim>\<open>splitJid\<close>, Python's \<^verbatim>\<open>int\<close> on a string and
  \<^verbatim>\<open>str\<close> on a failure, \<^verbatim>\<open>base64.b64decode\<close>, the constructor
  \<^verbatim>\<open>AuthState()\<close>, the clock (\<open>now\<close> is \<^verbatim>\<open>int(time.time())\<close>) and the handler
  registry \<^verbatim>\<open>createNodeHander\<close>. The protobuf schema is not among the sources either:
  \<open>username_type\<close> and \<open>device_type\<close> are the declared types of the integer fields
  \<^verbatim>\<open>ClientPayload.username\<close> and \<^verbatim>\<open>ClientPayload.device\<close>; the other fields the
  builder assigns take constants and byte strings. A call that can raise returns a sum, \<open>Inl\<close> the
  exception. A node handler runs on the connection and returns the exception it raised,
  if any, with the connection as it left it; \<open>None\<close> from the registry is a falsy
  handler.
\<close>

record 'h Env =
  constants :: Constants
  now :: int
  newAuthState :: AuthState
  noise_initialize :: "bytes \<Rightarrow> KeyPair \<Rightarrow> 'h"
  noise_write_message :: "'h \<Rightarrow> bytes \<Rightarrow> exn + (bytes \<times> (CipherState \<times> CipherState) option \<times> 'h)"
  noise_read_message :: "'h \<Rightarrow> bytes \<Rightarrow> exn + (bytes \<times> 'h)"
  noise_rs :: "'h \<Rightarrow> bytes"
  aead_encrypt :: "bytes \<Rightarrow> nat \<Rightarrow> bytes \<Rightarrow> bytes"
  aead_decrypt :: "bytes \<Rightarrow> nat \<Rightarrow> bytes \<Rightarrow> exn + bytes"
  verifySignature :: "bytes \<Rightarrow> bytes \<Rightarrow> bytes \<Rightarrow> bool"
  parseServerHello :: "bytes \<Rightarrow> exn + ServerHello"
  parseNoiseCertificate :: "bytes \<Rightarrow> exn + NoiseCertificate"
  parseDetails :: "bytes \<Rightarrow> exn + Details"
  serializeClientHello :: "bytes \<Rightarrow> bytes"
  serializeClientFinish :: "bytes \<Rightarrow> bytes \<Rightarrow> bytes"
  serializeClientPayload :: "ClientPayload \<Rightarrow> bytes"
  serializeCompanionProps :: "CompanionProps \<Rightarrow> bytes"
  b64decode :: "string \<Rightarrow> bytes"
  inflate :: "bytes \<Rightarrow> exn + bytes"
  readNode :: "bytes \<Rightarrow> exn + Node"
  getData :: "Node \<Rightarrow> bytes"
  splitJid :: "string \<Rightarrow> exn + (string \<times> string \<times> string \<times> string)"
  int_of_str :: "string \<Rightarrow> exn + int"
  username_type :: pb_int
  device_type :: pb_int
  str_of_failure :: "exn \<Rightarrow> string"
  createNodeHander :: "string \<Rightarrow> exn + ('h Conn \<Rightarrow> Node \<Rightarrow> exn option \<times> 'h Conn) option"

section \<open>The factory\<close>

text \<open>\<^verbatim>\<open>MultiDeviceWhatsAppClientFactory.authFailure\<close> and \<^verbatim>\<open>authSuccess\<close>.\<close>

definition authFailure :: "exn \<Rightarrow> 'h Conn \<Rightarrow> 'h Conn" where
  "authFailure e c =
     (case authDeferred (factory c) of
        None \<Rightarrow> c
      | Some d \<Rightarrow> errback d e (c\<lparr>factory := (factory c)\<lparr>authDeferred := None\<rparr>\<rparr>))"

definition authSuccess :: "'h Conn \<Rightarrow> 'h Conn" where
  "authSuccess c =
     (case authDeferred (factory c) of
        None \<Rightarrow> c
      | Some d \<Rightarrow> callback d (c\<lparr>factory := (factory c)\<lparr>authDeferred := None\<rparr>\<rparr>))"

text \<open>
  The factory's listeners \<^verbatim>\<open>_onOpen\<close> and \<^verbatim>\<open>_onClose\<close>, which
  \<^verbatim>\<open>buildProtocol\<close> registers for the events \<^verbatim>\<open>open\<close> and \<^verbatim>\<open>close\<close>. The
  protocol always fires \<^verbatim>\<open>close\<close> with a reason.
\<close>

definition factory_onOpen :: "'h Conn \<Rightarrow> 'h Conn" where
  "factory_onOpen c =
     (case readyDeferred (factory c) of
        None \<Rightarrow> c
      | Some d \<Rightarrow> callback d (c\<lparr>factory := (factory c)\<lparr>readyDeferred := None\<rparr>\<rparr>))"

definition factory_onClose :: "exn \<Rightarrow> 'h Conn \<Rightarrow> 'h Conn" where
  "factory_onClose rsn c =
     (case readyDeferred (factory c) of
        None \<Rightarrow> c
      | Some d \<Rightarrow> errback d rsn (c\<lparr>factory := (factory c)\<lparr>readyDeferred := None\<rparr>\<rparr>))"

text \<open>\<^verbatim>\<open>self.fire("open", self)\<close> and \<^verbatim>\<open>self.fire("close", self, Failure(excReason))\<close>.\<close>

definition fire_open :: "'h Conn \<Rightarrow> 'h Conn" where
  "fire_open c = factory_onOpen (emit FireOpen c)"

definition fire_close :: "exn \<Rightarrow> 'h Conn \<Rightarrow> 'h Conn" where
  "fire_close e c = factory_onClose e (emit (FireClose e) c)"

section \<open>Failure handling and close\<close>

definition authDone :: "'h Conn \<Rightarrow> bool" where
  "authDone c = (authDeferred (factory c) = None)"

text \<open>\<^verbatim>\<open>_handleFailure(failure, disconnect=False)\<close>.\<close>

definition handleFailure :: "exn \<Rightarrow> bool \<Rightarrow> 'h Conn \<Rightarrow> 'h Conn" where
  "handleFailure e disconnect c =
     (let c1 = c\<lparr>failure := Some e\<rparr>;
          c2 = (if \<not> authDone c1 then c1\<lparr>sendCipher := None, recvCipher := None\<rparr> else c1)
      in if disconnect then emit (SendClose 1000) c2 else c2)"

text \<open>
  \<^verbatim>\<open>onClose(wasClean, code, reason)\<close>; the three arguments are only logged.
\<close>

definition onClose :: "'h Env \<Rightarrow> 'h Conn \<Rightarrow> 'h Conn" where
  "onClose env c =
     (let c1 = (if keepAliveLoop c = Some True then c\<lparr>keepAliveLoop := None\<rparr> else c);
          fl = failure c1;
          c2 = c1\<lparr>failure := None\<rparr>
      in case (fl, authDeferred (factory c2)) of
           (Some e, Some d) \<Rightarrow> authFailure e c2
         | _ \<Rightarrow>
           (let excReason =
              (case fl of
                 None \<Rightarrow> ConnectionClosedError None None ''Connection Closed Cleanly''
               | Some (NodeStreamError cd) \<Rightarrow>
                   (if cd = ''401''
                    then ConnectionClosedError (Some True) None ''Device Logged Out''
                    else ConnectionClosedError None None ''Unhandled Stream Error'')
               | Some (AuthenticationFailedError m) \<Rightarrow>
                   ConnectionClosedError None (Some False) ''Authentication Failed''
               | Some e \<Rightarrow>
                   ConnectionClosedError None None
                     (''Unknown Failure: '' @ [CHR 0x0A] @ str_of_failure env e))
            in fire_close excReason c2))"

section \<open>Node dispatch\<close>

text \<open>
  \<^verbatim>\<open>FailureHandler.handleNode\<close> (\<^verbatim>\<open>handlers/failure.py\<close>). Before the
  authentication is done, building the argument of \<^verbatim>\<open>_handleFailure\<close> reads
  \<^verbatim>\<open>attrs['reason']\<close>; no name \<^verbatim>\<open>attrs\<close> is bound there, so the read raises
  \<^verbatim>\<open>NameError\<close> and \<^verbatim>\<open>_handleFailure\<close> is not entered. Once the authentication is
  done the method does nothing.
\<close>

definition FailureHandler_handleNode :: "'h Conn \<Rightarrow> Node \<Rightarrow> exn option \<times> 'h Conn" where
  "FailureHandler_handleNode conn node =
     (if \<not> authDone conn then (Some (NameError ''attrs''), conn) else (None, conn))"

text \<open>
  \<^verbatim>\<open>messageNodeReceived(node)\<close>, for handlers that finish without waiting. The entry
  is recorded as \<open>Dispatched node\<close>.
\<close>

definition messageNodeReceived :: "'h Env \<Rightarrow> 'h Conn \<Rightarrow> Node \<Rightarrow> 'h Conn" where
  "messageNodeReceived env c node =
     (let c0 = emit (Dispatched node) c in
      case createNodeHander env (tag node) of
        Inl e \<Rightarrow> handleFailure e False c0
      | Inr None \<Rightarrow> c0
      | Inr (Some nodeHandler) \<Rightarrow>
          (case nodeHandler c0 node of
             (None, c1) \<Rightarrow> c1
           | (Some e, c1) \<Rightarrow> handleFailure e False c1))"

section \<open>The transport cipher pair\<close>

text \<open>
  \<^verbatim>\<open>CipherState.decrypt_with_ad(b"", ciphertext)\<close> and
  \<^verbatim>\<open>encrypt_with_ad(b"", plaintext)\<close>: the AEAD under the key and the current nonce;
  the nonce moves on after an operation that succeeded.
\<close>

definition decrypt_with_ad :: "'h Env \<Rightarrow> CipherState \<Rightarrow> bytes \<Rightarrow> (exn + bytes) \<times> CipherState" where
  "decrypt_with_ad env cs ciphertext =
     (case aead_decrypt env (ck cs) (cn cs) ciphertext of
        Inl e \<Rightarrow> (Inl e, cs)
      | Inr plaintext \<Rightarrow> (Inr plaintext, cs\<lparr>cn := cn cs + 1\<rparr>))"

definition encrypt_with_ad :: "'h Env \<Rightarrow> CipherState \<Rightarrow> bytes \<Rightarrow> bytes \<times> CipherState" where
  "encrypt_with_ad env cs plaintext =
     (aead_encrypt env (ck cs) (cn cs) plaintext, cs\<lparr>cn := cn cs + 1\<rparr>)"

section \<open>Inbound messages\<close>

text \<open>
  The body of the loop of \<^verbatim>\<open>onMessage\<close> after the frame has been cut out: decrypt,
  strip the flag byte, inflate when flagged, read one node and dispatch it. An exception
  of the decryption is handled with \<^verbatim>\<open>_handleFailure(Failure(), disconnect=True)\<close>;
  only \<^verbatim>\<open>StreamEndError\<close> is caught around the decoding, so \<^verbatim>\<open>decrypted[0]\<close> on an
  empty plaintext (\<^verbatim>\<open>IndexError\<close>) and any other exception of \<^verbatim>\<open>inflate\<close> or of
  the reader leave \<^verbatim>\<open>onMessage\<close>. The result is the exception that left, if any.
\<close>

definition frameReceived :: "'h Env \<Rightarrow> 'h Conn \<Rightarrow> bytes \<Rightarrow> exn option \<times> 'h Conn" where
  "frameReceived env c encrypted =
     (case recvCipher c of
        None \<Rightarrow> (None, c)
      | Some rc \<Rightarrow>
          (case decrypt_with_ad env rc encrypted of
             (Inl e, rc1) \<Rightarrow> (None, handleFailure e True (c\<lparr>recvCipher := Some rc1\<rparr>))
           | (Inr decrypted, rc1) \<Rightarrow>
               (let c1 = c\<lparr>recvCipher := Some rc1\<rparr> in
                case decrypted of
                  [] \<Rightarrow> (Some (IndexError ''index out of range''), c1)
                | flag # rest \<Rightarrow>
                    (case (if flag AND FLAG_COMPRESSED (constants env) \<noteq> 0
                           then inflate env rest else Inr rest) of
                       Inl e \<Rightarrow> (if e = StreamEndError then (None, c1) else (Some e, c1))
                     | Inr body \<Rightarrow>
                         (case readNode env body of
                            Inl e \<Rightarrow> (if e = StreamEndError then (None, c1) else (Some e, c1))
                          | Inr node \<Rightarrow> (None, messageNodeReceived env c1 node))))))"

text \<open>
  The loop \<^verbatim>\<open>while message:\<close> of \<^verbatim>\<open>onMessage\<close>. Python's slices
  \<^verbatim>\<open>message[3:messageLength + 3]\<close> and \<^verbatim>\<open>message[messageLength + 3:]\<close> stop at the
  end of the buffer, as \<open>take\<close> and \<open>drop\<close> do.
\<close>

function onMessage_loop :: "'h Env \<Rightarrow> 'h Conn \<Rightarrow> bytes \<Rightarrow> exn option \<times> 'h Conn" where
  "onMessage_loop env c message =
     (if message = [] then (None, c)
      else
        (let messageLength = decodeInt (take 3 message) 3;
             encrypted = take messageLength (drop 3 message);
             message1 = drop (messageLength + 3) message
         in case frameReceived env c encrypted of
              (Some e, c1) \<Rightarrow> (Some e, c1)
            | (None, c1) \<Rightarrow> onMessage_loop env c1 message1))"
  by pat_completeness auto
termination
  by (relation "measure (\<lambda>(env, c, message). length message)") auto

declare onMessage_loop.simps [simp del]

section \<open>Outbound nodes and requests\<close>

text \<open>
  \<^verbatim>\<open>sendMessageNode(node)\<close>. With no send cipher, \<^verbatim>\<open>self._sendCipher.encrypt_with_ad\<close>
  is an attribute read on \<^verbatim>\<open>None\<close>.
\<close>

definition sendMessageNode :: "'h Env \<Rightarrow> 'h Conn \<Rightarrow> Node \<Rightarrow> exn option \<times> 'h Conn" where
  "sendMessageNode env c node =
     (let encoded = 0 # getData env node in
      case sendCipher c of
        None \<Rightarrow> (Some (AttributeError ''encrypt_with_ad''), c)
      | Some sc \<Rightarrow>
          (let (encrypted, sc1) = encrypt_with_ad env sc encoded;
               payload = encodeInt (int (length encrypted)) 3 @ encrypted
           in (None, emit (SendMessage payload) (c\<lparr>sendCipher := Some sc1\<rparr>))))"

text \<open>
  \<^verbatim>\<open>request(node)\<close>: the deferred it returns, or the exception that leaves it, with
  the connection.
\<close>

definition request :: "'h Env \<Rightarrow> 'h Conn \<Rightarrow> Node \<Rightarrow> (exn + nat) \<times> 'h Conn" where
  "request env c node =
     (let (deferred, c1) = newDeferred c;
          c2 = c1\<lparr>pendingRequest := (pendingRequest c1)(Node_getitem node ''id'' \<mapsto> deferred)\<rparr>
      in case sendMessageNode env c2 node of
           (Some e, c3) \<Rightarrow> (Inl e, c3)
         | (None, c3) \<Rightarrow> (Inr deferred, c3))"

section \<open>The client payload\<close>

text \<open>
  \<^verbatim>\<open>_buildClientPayloadHandshake\<close>. \<^verbatim>\<open>AuthState.has("me")\<close> is the presence of the
  \<open>me\<close> record; \<^verbatim>\<open>self.authState.me['jid']\<close> raises \<^verbatim>\<open>KeyError\<close> when the record
  has no \<^verbatim>\<open>jid\<close>. In the resume mode the source runs \<^verbatim>\<open>int(user)\<close>, assigns it to
  \<^verbatim>\<open>username\<close>, then runs \<^verbatim>\<open>int(device)\<close> and assigns it to \<^verbatim>\<open>device\<close>; each
  of the four steps can raise.
\<close>

definition buildUserAgent :: "Constants \<Rightarrow> UserAgent" where
  "buildUserAgent k =
     (case (DEFAULT_BROWSER_KIND k, WHATSAPP_WEB_VERSION k) of
        ((b0, b1, b2), (v0, v1, v2)) \<Rightarrow>
          \<lparr> appVersion = \<lparr>primary = Some v0, secondary = Some v1, tertiary = Some v2\<rparr>,
            platform = 14, releaseChannel = 0, mcc = ''000'', mnc = ''000'',
            osVersion = b2, manufacturer = '''', ua_device = b1, osBuildNumber = ''0.1'',
            localeLanguageIso6391 = ''en'', localeCountryIso31661Alpha2 = ''en'' \<rparr>)"

definition buildCompanionRegData :: "'h Env \<Rightarrow> AuthState \<Rightarrow> CompanionRegData" where
  "buildCompanionRegData env a =
     (let companionProps1 =
            \<lparr> os = fst (DEFAULT_BROWSER_KIND (constants env)),
              version = \<lparr>primary = Some 10, secondary = None, tertiary = None\<rparr>,
              platformType = 1, requireFullSync = False \<rparr>
      in \<lparr> buildHash = b64decode env (BUILD_HASH (constants env)),
           companionProps = serializeCompanionProps env companionProps1,
           eRegid = encodeInt (registrationId a) 4,
           eKeytype = encodeInt 5 1,
           eIdent = publicKey (signedIdentityKey a),
           eSkeyId = encodeInt (getId (signedPrekey a)) 3,
           eSkeyVal = publicKey (getKeyPair (signedPrekey a)),
           eSkeySig = getSignature (signedPrekey a) \<rparr>)"

definition buildClientPayloadHandshake :: "'h Env \<Rightarrow> 'h Conn \<Rightarrow> exn + ClientPayload" where
  "buildClientPayloadHandshake env c =
     (case authState c of
        None \<Rightarrow> Inl (AttributeError ''has'')
      | Some a \<Rightarrow>
          (case me a of
             None \<Rightarrow>
               Inr \<lparr> connectReason = 1, connectType = 1, cp_passive = False,
                     regData = Some (buildCompanionRegData env a),
                     username = None, device = None,
                     userAgent = buildUserAgent (constants env),
                     webInfo = \<lparr>webSubPlatform = 0\<rparr> \<rparr>
           | Some m \<Rightarrow>
               (case m ''jid'' of
                  None \<Rightarrow> Inl (KeyError ''jid'')
                | Some j \<Rightarrow>
                    (case splitJid env j of
                       Inl e \<Rightarrow> Inl e
                     | Inr (user, agent, dev, server) \<Rightarrow>
                         (case int_of_str env user of
                            Inl e \<Rightarrow> Inl e
                          | Inr u \<Rightarrow>
                              if \<not> pb_in_range (username_type env) u
                              then Inl (ValueError ''Value out of range'')
                              else
                              (case int_of_str env dev of
                                 Inl e \<Rightarrow> Inl e
                               | Inr d \<Rightarrow>
                                   if \<not> pb_in_range (device_type env) d
                                   then Inl (ValueError ''Value out of range'')
                                   else
                                   Inr \<lparr> connectReason = 1, connectType = 1, cp_passive = True,
                                         regData = None,
                                         username = Some u, device = Some d,
                                         userAgent = buildUserAgent (constants env),
                                         webInfo = \<lparr>webSubPlatform = 0\<rparr> \<rparr>))))))"

section \<open>The handshake\<close>

definition startKeepAliveLoop :: "'h Conn \<Rightarrow> 'h Conn" where
  "startKeepAliveLoop c = c\<lparr>keepAliveLoop := Some True\<rparr>"

text \<open>\<^verbatim>\<open>_sendClientHello\<close> and \<^verbatim>\<open>_waitServerHello\<close>.\<close>

definition sendClientHello :: "'h Env \<Rightarrow> 'h Conn \<Rightarrow> exn option \<times> 'h Conn" where
  "sendClientHello env c =
     (let a = (case authState c of None \<Rightarrow> newAuthState env | Some a \<Rightarrow> a);
          c1 = c\<lparr>authState := Some a\<rparr>;
          hs = noise_initialize env (PROLOGUE (constants env)) (noiseKey a);
          c2 = c1\<lparr>noiseHandshakeState := Some hs\<rparr>
      in case noise_write_message env hs [] of
           Inl e \<Rightarrow> (Some e, c2)
         | Inr (ephemeralPublic, pair, hs1) \<Rightarrow>
             (let clientHelloMsg = serializeClientHello env ephemeralPublic;
                  clientHelloPayload =
                    PROLOGUE (constants env) @ encodeInt (int (length clientHelloMsg)) 3 @ clientHelloMsg
              in (None, emit (SendMessage clientHelloPayload)
                          (c2\<lparr>noiseHandshakeState := Some hs1\<rparr>))))"

definition waitServerHello :: "'h Env \<Rightarrow> 'h Conn \<Rightarrow> exn option \<times> 'h Conn" where
  "waitServerHello env c =
     (case sendClientHello env c of
        (Some e, c1) \<Rightarrow> (Some e, c1)
      | (None, c1) \<Rightarrow>
          (let (d, c2) = newDeferred c1 in (None, c2\<lparr>serverHelloDeferred := Some d\<rparr>)))"

text \<open>
  The four checks of the certificate in \<^verbatim>\<open>_doHandshake\<close>, in the order of the source;
  the result is the exception raised, if any. \<open>rs\<close> is
  \<^verbatim>\<open>self._noiseHandshakeState.rs.data\<close>.
\<close>

definition verifyCertificate :: "'h Env \<Rightarrow> bytes \<Rightarrow> NoiseCertificate \<Rightarrow> Details \<Rightarrow> exn option" where
  "verifyCertificate env rs cert certDetails =
     (if issuer certDetails \<noteq> CERTIFICATE_ISSUER (constants env)
      then Some (AuthenticationFailedError
                   (''Noise certificate issued by unknown source: '' @ issuer certDetails))
      else if \<not> verifySignature env (WHATSAPP_LONG_TERM (constants env)) (details cert) (signature cert)
      then Some (AuthenticationFailedError ''Invalid signature on noise ceritificate'')
      else if key certDetails \<noteq> rs
      then Some (AuthenticationFailedError
                   ''Noise certificate key does not match proposed server static key'')
      else if (case expires certDetails of None \<Rightarrow> False | Some ex \<Rightarrow> ex < now env)
      then Some (AuthenticationFailedError ''Noise certificate expired'')
      else None)"

text \<open>
  \<^verbatim>\<open>_doHandshake\<close> runs in two parts: up to \<^verbatim>\<open>yield self._waitServerHello()\<close>, and
  from the ServerHello that \<^verbatim>\<open>onMessage\<close> delivers to the end. Each part returns the
  exception that ended it, if any.
\<close>

definition doHandshake_start :: "'h Env \<Rightarrow> 'h Conn \<Rightarrow> exn option \<times> 'h Conn" where
  "doHandshake_start env c = waitServerHello env c"

definition doHandshake_resume :: "'h Env \<Rightarrow> 'h Conn \<Rightarrow> ServerHello \<Rightarrow> exn option \<times> 'h Conn" where
  "doHandshake_resume env c serverHello =
     (case noiseHandshakeState c of
        None \<Rightarrow> (Some (AttributeError ''read_message''), c)
      | Some hs \<Rightarrow>
     (case noise_read_message env hs
             (sh_ephemeral serverHello @ sh_static serverHello @ sh_payload serverHello) of
        Inl e \<Rightarrow> (Some e, c)
      | Inr (messageBuffer, hs1) \<Rightarrow>
     (let c1 = c\<lparr>noiseHandshakeState := Some hs1\<rparr> in
      case parseNoiseCertificate env messageBuffer of
        Inl e \<Rightarrow> (Some e, c1)
      | Inr cert \<Rightarrow>
     (case parseDetails env (details cert) of
        Inl e \<Rightarrow> (Some e, c1)
      | Inr certDetails \<Rightarrow>
     (case verifyCertificate env (noise_rs env hs1) cert certDetails of
        Some e \<Rightarrow> (Some e, c1)
      | None \<Rightarrow>
     (case buildClientPayloadHandshake env c1 of
        Inl e \<Rightarrow> (Some e, c1)
      | Inr clientPayload \<Rightarrow>
     (case noise_write_message env hs1 (serializeClientPayload env clientPayload) of
        Inl e \<Rightarrow> (Some e, c1)
      | Inr (messageBuffer2, None, hs2) \<Rightarrow>
          (Some (OtherError ''cannot unpack None''), c1\<lparr>noiseHandshakeState := Some hs2\<rparr>)
      | Inr (messageBuffer2, Some (sendC, recvC), hs2) \<Rightarrow>
          (let c2 = c1\<lparr>noiseHandshakeState := Some hs2, sendCipher := Some sendC,
                        recvCipher := Some recvC\<rparr>;
               clientFinishMessage =
                 serializeClientFinish env (take 48 messageBuffer2) (drop 48 messageBuffer2);
               clientFinishPayload =
                 encodeInt (int (length clientFinishMessage)) 3 @ clientFinishMessage
           in (None, startKeepAliveLoop (emit (SendMessage clientFinishPayload) c2))))))))))"

text \<open>
  \<^verbatim>\<open>authenticate()\<close> and \<^verbatim>\<open>onOpen()\<close>: the errback \<^verbatim>\<open>_handleFailure\<close> is added
  with the default \<^verbatim>\<open>disconnect=False\<close>.
\<close>

definition authenticate :: "'h Env \<Rightarrow> 'h Conn \<Rightarrow> nat option \<times> 'h Conn" where
  "authenticate env c =
     (let c1 = (case doHandshake_start env c of
                  (Some e, c1) \<Rightarrow> handleFailure e False c1
                | (None, c1) \<Rightarrow> c1)
      in (authDeferred (factory c1), c1))"

definition onOpen :: "'h Env \<Rightarrow> 'h Conn \<Rightarrow> 'h Conn" where
  "onOpen env c =
     (if authState c = None then fire_open c
      else (case doHandshake_start env c of
              (Some e, c1) \<Rightarrow> handleFailure e False c1
            | (None, c1) \<Rightarrow> c1))"

text \<open>
  \<^verbatim>\<open>onMessage(message, isBinary)\<close>. While a ServerHello is awaited the message is
  parsed and the second part of \<^verbatim>\<open>_doHandshake\<close> runs inside \<^verbatim>\<open>d.callback\<close>, with
  its errback; an exception of the parser leaves \<^verbatim>\<open>onMessage\<close>.
\<close>

definition onMessage :: "'h Env \<Rightarrow> 'h Conn \<Rightarrow> bytes \<Rightarrow> exn option \<times> 'h Conn" where
  "onMessage env c message =
     (case serverHelloDeferred c of
        Some d \<Rightarrow>
          (case parseServerHello env (drop 3 message) of
             Inl e \<Rightarrow> (Some e, c)
           | Inr serverHello \<Rightarrow>
               (let c1 = callback d (c\<lparr>serverHelloDeferred := None\<rparr>) in
                case doHandshake_resume env c1 serverHello of
                  (Some e, c2) \<Rightarrow> (None, handleFailure e False c2)
                | (None, c2) \<Rightarrow> (None, c2)))
      | None \<Rightarrow> onMessage_loop env c message)"

section \<open>A small environment for evaluating the model\<close>

text \<open>
  An instance of the environment with toy libraries: the AEAD is the identity on
  non-empty input, the node reader knows three one-byte encodings, \<open>splitJid\<close> cuts
  a jid at the \<^verbatim>\<open>@\<close>, \<open>int_of_str\<close> knows three numerals, the registry maps
  the tag \<^verbatim>\<open>failure\<close> to \<open>FailureHandler_handleNode\<close>, and the details of a
  certificate carry their expiry time in their first byte. \<open>exampleConn\<close> is a
  connection after a finished authentication: both ciphers are set and the factory's
  \<^verbatim>\<open>authDeferred\<close> is \<^verbatim>\<open>None\<close>.
\<close>

definition exampleHandlers :: "string \<Rightarrow> exn + (unit Conn \<Rightarrow> Node \<Rightarrow> exn option \<times> unit Conn) option" where
  "exampleHandlers t = (if t = ''failure'' then Inr (Some FailureHandler_handleNode) else Inr None)"

definition exampleReadNode :: "bytes \<Rightarrow> exn + Node" where
  "exampleReadNode b =
     (if b = [1] then Inr (Node ''iq'' [(''id'', ''A'')] NoContent)
      else if b = [2] then Inr (Node ''iq'' [(''id'', ''B'')] NoContent)
      else if b = [3] then Inr (Node ''failure'' [(''code'', ''401'')] NoContent)
      else Inl StreamEndError)"

definition exampleEnv :: "unit Env" where
  "exampleEnv =
     \<lparr> constants =
         \<lparr> PROLOGUE = [87, 65], CERTIFICATE_ISSUER = ''WhatsAppLongTerm1'',
           WHATSAPP_LONG_TERM = [1], FLAG_COMPRESSED = 2, BUILD_HASH = ''hash'',
           DEFAULT_BROWSER_KIND = (''Mac OS'', ''Chrome'', ''10.15''),
           WHATSAPP_WEB_VERSION = (2, 2126, 14) \<rparr>,
       now = 100,
       newAuthState =
         \<lparr> noiseKey = \<lparr>publicKey = [1], privateKey = [2]\<rparr>,
           signedIdentityKey = \<lparr>publicKey = [3], privateKey = [4]\<rparr>,
           signedPrekey = \<lparr>getId = 1, getKeyPair = \<lparr>publicKey = [5], privateKey = [6]\<rparr>,
                            getSignature = [9]\<rparr>,
           registrationId = 258, me = None \<rparr>,
       noise_initialize = (\<lambda>p k. ()),
       noise_write_message =
         (\<lambda>h b. Inr (b, Some (\<lparr>ck = [1], cn = 0\<rparr>, \<lparr>ck = [2], cn = 0\<rparr>), h)),
       noise_read_message = (\<lambda>h b. if b = [] then Inl (OtherError ''noise'') else Inr (b, h)),
       noise_rs = (\<lambda>h. [7]),
       aead_encrypt = (\<lambda>k n p. p),
       aead_decrypt = (\<lambda>k n ct. if ct = [] then Inl (OtherError ''InvalidTag'') else Inr ct),
       verifySignature = (\<lambda>k d s. True),
       parseServerHello = (\<lambda>b. Inr \<lparr>sh_ephemeral = [], sh_static = [], sh_payload = b\<rparr>),
       parseNoiseCertificate = (\<lambda>b. Inr \<lparr>details = b, signature = []\<rparr>),
       parseDetails =
         (\<lambda>b. case b of
                [] \<Rightarrow> Inl (OtherError ''DecodeError'')
              | x # xs \<Rightarrow> Inr \<lparr>issuer = ''WhatsAppLongTerm1'', key = [7],
                              expires = Some (uint x)\<rparr>),
       serializeClientHello = (\<lambda>e. e),
       serializeClientFinish = (\<lambda>s p. s @ p),
       serializeClientPayload = (\<lambda>p. [if cp_passive p then 1 else 0]),
       serializeCompanionProps = (\<lambda>p. []),
       b64decode = (\<lambda>s. []),
       inflate = (\<lambda>b. Inr b),
       readNode = exampleReadNode,
       getData = (\<lambda>n. []),
       splitJid =
         (\<lambda>j. Inr (takeWhile (\<lambda>ch. ch \<noteq> CHR ''@'') j, '''', ''0'',
                    drop 1 (dropWhile (\<lambda>ch. ch \<noteq> CHR ''@'') j))),
       int_of_str =
         (\<lambda>s. if s = ''0'' then Inr 0
              else if s = ''62812'' then Inr 62812
              else if s = ''18446744073709551616'' then Inr 18446744073709551616
              else Inl (ValueError ''invalid literal for int()'')),
       username_type = PB_uint64,
       device_type = PB_uint32,
       str_of_failure = (\<lambda>e. ''failure''),
       createNodeHander = exampleHandlers \<rparr>"

definition exampleFactory :: "AuthState Factory" where
  "exampleFactory = \<lparr>readyDeferred = None, authDeferred = None, f_authState = None\<rparr>"

definition exampleConn :: "unit Conn" where
  "exampleConn =
     (newConn (Some (newAuthState exampleEnv)) exampleFactory [])
       \<lparr>sendCipher := Some \<lparr>ck = [1], cn = 0\<rparr>, recvCipher := Some \<lparr>ck = [2], cn = 0\<rparr>\<rparr>"

text \<open>
  A connection as \<^verbatim>\<open>buildProtocol\<close> hands it out, with an AuthState and with the
  factory's authentication deferred (deferred 0) still pending.
\<close>

definition exampleNewConn :: "unit Conn" where
  "exampleNewConn =
     newConn (Some (newAuthState exampleEnv)) (exampleFactory\<lparr>authDeferred := Some 0\<rparr>) [Pending]"

section \<open>Properties of the message-id generator\<close>

lemma of_char_digit: "d < 10 \<Longrightarrow> of_char (digit d) = 48 + d"
  by (simp add: digit_def)

lemma nat_of_str_str_nat: "nat_of_str (str_nat n) = n"
proof (induction n rule: str_nat.induct)
  case (1 n)
  show ?case
  proof (cases "n < 10")
    case True
    then show ?thesis
      by (subst str_nat.simps) (simp add: nat_of_str_def of_char_digit)
  next
    case False
    then have "nat_of_str (str_nat (n div 10)) = n div 10" using 1 by simp
    then show ?thesis using False
      by (subst str_nat.simps) (simp add: nat_of_str_def of_char_digit)
  qed
qed

lemma str_nat_inj: "str_nat a = str_nat b \<Longrightarrow> a = b"
  by (metis nat_of_str_str_nat)

lemma generateMessageId_tag:
  "fst (generateMessageId r c) = currentPrefix r c @ ''-'' @ str_nat (messageTagCounter c + 1)"
  by (simp add: generateMessageId_def currentPrefix_def Let_def)

lemma generateMessageId_counter:
  "messageTagCounter (snd (generateMessageId r c)) =
     (if messageTagCounter c = 98 then 0 else messageTagCounter c + 1)"
  by (simp add: generateMessageId_def Let_def)

lemma generateMessageId_prefix:
  "messageTagPrefix (snd (generateMessageId r c)) =
     (if messageTagCounter c = 98 then None else Some (currentPrefix r c))"
  by (simp add: generateMessageId_def currentPrefix_def Let_def)

lemma generateMessageIds_Cons:
  "fst (generateMessageIds (r # rs) c) =
     fst (generateMessageId r c) # fst (generateMessageIds rs (snd (generateMessageId r c)))"
  by (simp add: split_beta Let_def)

lemma generateMessageIds_length: "length (fst (generateMessageIds rs c)) = length rs"
  by (induction rs arbitrary: c) (simp_all add: split_beta Let_def)

lemma generateMessageIds_nth:
  assumes "messageTagCounter c < 99"
    and "(messageTagPrefix c = None) = (messageTagCounter c = 0)"
    and "i < length rs"
  shows "fst (generateMessageIds rs c) ! i =
     (if messageTagCounter c + i < 99 \<and> messageTagCounter c \<noteq> 0
      then currentPrefix ('''', '''') c
      else currentPrefix (rs ! (99 * ((messageTagCounter c + i) div 99) - messageTagCounter c))
             (c\<lparr>messageTagPrefix := None\<rparr>))
     @ ''-'' @ str_nat ((messageTagCounter c + i) mod 99 + 1)"
  using assms
proof (induction rs arbitrary: c i)
  case Nil
  then show ?case by simp
next
  case (Cons r rs)
  let ?k = "messageTagCounter c"
  let ?c1 = "snd (generateMessageId r c)"
  show ?case
  proof (cases i)
    case 0
    show ?thesis
      using Cons.prems 0
      by (cases "messageTagPrefix c")
         (simp_all add: generateMessageIds_Cons generateMessageId_tag currentPrefix_def
            del: generateMessageIds.simps)
  next
    case (Suc j)
    have j: "j < length rs" using Cons.prems Suc by simp
    have k1: "messageTagCounter ?c1 < 99"
      using Cons.prems by (simp add: generateMessageId_counter)
    have p1: "(messageTagPrefix ?c1 = None) = (messageTagCounter ?c1 = 0)"
      by (simp add: generateMessageId_counter generateMessageId_prefix)
    note IH = Cons.IH [OF k1 p1 j]
    have nth: "fst (generateMessageIds (r # rs) c) ! i = fst (generateMessageIds rs ?c1) ! j"
      by (simp add: generateMessageIds_Cons Suc del: generateMessageIds.simps)
    show ?thesis
    proof (cases "?k = 98")
      case True
      have e: "98 + Suc j = j + 99" by simp
      have d: "(98 + Suc j) div 99 = Suc (j div 99)" unfolding e by simp
      have m: "(98 + Suc j) mod 99 = j mod 99" unfolding e by simp
      have idx: "99 * Suc (j div 99) - 98 = Suc (99 * (j div 99))" by simp
      show ?thesis
        unfolding nth IH using True
        by (simp add: generateMessageId_counter Suc d m idx currentPrefix_def del: mult_Suc_right)
    next
      case False
      then have k: "?k < 98" using Cons.prems by simp
      have c1: "messageTagCounter ?c1 = ?k + 1"
        using False by (simp add: generateMessageId_counter)
      have pr1: "messageTagPrefix ?c1 = Some (currentPrefix r c)"
        using False by (simp add: generateMessageId_prefix)
      show ?thesis
      proof (cases "?k + i < 99")
        case True
        then show ?thesis
          unfolding nth IH using Cons.prems(2) k
          by (cases "messageTagPrefix c") (simp_all add: c1 pr1 Suc currentPrefix_def)
      next
        case False
        then have "99 \<le> ?k + Suc j" using Suc by simp
        then have "1 \<le> (?k + Suc j) div 99" by (simp add: Suc_le_eq div_greater_zero_iff)
        then have "99 * ((?k + Suc j) div 99) - ?k = Suc (99 * ((?k + Suc j) div 99) - (?k + 1))"
          using k by simp
        then show ?thesis
          unfolding nth IH using False
          by (simp add: c1 pr1 Suc currentPrefix_def)
      qed
    qed
  qed
qed

lemma generateMessageIds_state:
  assumes "messageTagCounter c < 99"
    and "(messageTagPrefix c = None) = (messageTagCounter c = 0)"
  shows "messageTagCounter (snd (generateMessageIds rs c)) = (messageTagCounter c + length rs) mod 99
       \<and> (messageTagPrefix (snd (generateMessageIds rs c)) = None)
           = ((messageTagCounter c + length rs) mod 99 = 0)"
  using assms
proof (induction rs arbitrary: c)
  case Nil
  then show ?case by simp
next
  case (Cons r rs)
  let ?c1 = "snd (generateMessageId r c)"
  have k1: "messageTagCounter ?c1 < 99"
    using Cons.prems by (simp add: generateMessageId_counter)
  have p1: "(messageTagPrefix ?c1 = None) = (messageTagCounter ?c1 = 0)"
    by (simp add: generateMessageId_counter generateMessageId_prefix)
  have s: "snd (generateMessageIds (r # rs) c) = snd (generateMessageIds rs ?c1)"
    by (simp add: split_beta Let_def)
  have a: "(messageTagCounter ?c1 + length rs) mod 99 = (messageTagCounter c + length (r # rs)) mod 99"
  proof (cases "messageTagCounter c = 98")
    case True
    have "(98 + Suc (length rs)) = length rs + 99" by simp
    then have "(98 + Suc (length rs)) mod 99 = length rs mod 99" by (simp del: add_Suc_right)
    then show ?thesis using True by (simp add: generateMessageId_counter)
  next
    case False
    then show ?thesis by (simp add: generateMessageId_counter)
  qed
  show ?case unfolding s using Cons.IH [OF k1 p1] a by simp
qed

text \<open>
  Claim C9. On a fresh connection (counter 0, no prefix), the id returned by call number
  \<open>i\<close> (counted from 0) of any sequence of calls is \<open>prefix-suffix\<close>, where the
  suffix is the decimal numeral of \<open>i mod 99 + 1\<close>, a number from 1 to 99, and the
  prefix is built from the random values drawn at the first call of the block of 99 calls
  that \<open>i\<close> lies in: after the call that prints 99 the prefix is dropped and the next
  call draws a new one. Within one block the suffixes strictly increase and the ids are
  pairwise different. After the calls the counter is the number of calls modulo 99, and
  there is no stored prefix exactly when that is 0.
\<close>

theorem generateMessageId_suffix_1_to_99:
  assumes "messageTagCounter c = 0" and "messageTagPrefix c = None" and "i < length rs"
  shows "fst (generateMessageIds rs c) ! i =
           (fst (rs ! (99 * (i div 99))) @ ''.'' @ snd (rs ! (99 * (i div 99))))
           @ ''-'' @ str_nat (i mod 99 + 1)
       \<and> 1 \<le> i mod 99 + 1 \<and> i mod 99 + 1 \<le> 99
       \<and> (\<forall>j. i < j \<and> j < length rs \<and> j div 99 = i div 99 \<longrightarrow>
            i mod 99 + 1 < j mod 99 + 1
            \<and> fst (generateMessageIds rs c) ! i \<noteq> fst (generateMessageIds rs c) ! j)
       \<and> messageTagCounter (snd (generateMessageIds rs c)) = length rs mod 99
       \<and> (messageTagPrefix (snd (generateMessageIds rs c)) = None) = (length rs mod 99 = 0)"
proof -
  have inv: "messageTagCounter c < 99" "(messageTagPrefix c = None) = (messageTagCounter c = 0)"
    using assms by simp_all
  have form: "fst (generateMessageIds rs c) ! n =
           (fst (rs ! (99 * (n div 99))) @ ''.'' @ snd (rs ! (99 * (n div 99))))
           @ ''-'' @ str_nat (n mod 99 + 1)" if "n < length rs" for n
    using generateMessageIds_nth [OF inv that] assms(1,2) by (simp add: currentPrefix_def)
  have later: "i mod 99 + 1 < j mod 99 + 1
      \<and> fst (generateMessageIds rs c) ! i \<noteq> fst (generateMessageIds rs c) ! j"
    if "i < j" "j < length rs" "j div 99 = i div 99" for j
  proof -
    have "99 * (i div 99) + i mod 99 < 99 * (j div 99) + j mod 99"
      using that(1) by (simp only: mult_div_mod_eq)
    then have "99 * (i div 99) + i mod 99 < 99 * (i div 99) + j mod 99"
      by (simp only: that(3))
    then have lt: "i mod 99 < j mod 99" by (simp only: nat_add_left_cancel_less)
    have "str_nat (i mod 99 + 1) \<noteq> str_nat (j mod 99 + 1)"
    proof
      assume "str_nat (i mod 99 + 1) = str_nat (j mod 99 + 1)"
      then have "i mod 99 + 1 = j mod 99 + 1" by (rule str_nat_inj)
      then show False using lt by simp
    qed
    then show ?thesis using lt form [OF assms(3)] form [OF that(2)] that(3) by simp
  qed
  have st: "messageTagCounter (snd (generateMessageIds rs c)) = length rs mod 99
       \<and> (messageTagPrefix (snd (generateMessageIds rs c)) = None) = (length rs mod 99 = 0)"
    using generateMessageIds_state [OF inv, of rs] assms(1) by simp
  have bound: "i mod 99 + 1 \<le> 99" by simp
  show ?thesis
    apply (intro conjI allI impI)
    subgoal by (rule form [OF assms(3)])
    subgoal by simp
    subgoal by (rule bound)
    subgoal for j using later [of j] by blast
    subgoal for j using later [of j] by blast
    subgoal using st by simp
    subgoal using st by simp
    done
qed

theorem generateMessageId_suffix_1_to_99_witness:
  "messageTagCounter (newConn None \<lparr>readyDeferred = None, authDeferred = None, f_authState = None\<rparr> [] :: unit Conn) = 0
   \<and> messageTagPrefix (newConn None \<lparr>readyDeferred = None, authDeferred = None, f_authState = None\<rparr> [] :: unit Conn) = None
   \<and> (1::nat) < length [(''12345'', ''67890''), (''11111'', ''22222''), (''3'', ''4'')]
   \<and> fst (generateMessageIds [(''12345'', ''67890''), (''11111'', ''22222''), (''3'', ''4'')]
        (newConn None \<lparr>readyDeferred = None, authDeferred = None, f_authState = None\<rparr> [] :: unit Conn)) ! 1
      = ''12345.67890-2''"
proof -
  let ?c = "newConn None \<lparr>readyDeferred = None, authDeferred = None, f_authState = None\<rparr> [] :: unit Conn"
  let ?rs = "[(''12345'', ''67890''), (''11111'', ''22222''), (''3'', ''4'')]"
  have h1: "messageTagCounter ?c = 0" and h2: "messageTagPrefix ?c = None"
    by (simp_all add: newConn_def)
  have h3: "(1::nat) < length ?rs" by simp
  have s: "str_nat (1 mod 99 + 1) = ''2''" by code_simp
  have "fst (generateMessageIds ?rs ?c) ! 1 = ''12345.67890-2''"
    using generateMessageId_suffix_1_to_99 [OF h1 h2 h3, THEN conjunct1] s
    by (simp del: generateMessageIds.simps)
  then show ?thesis using h1 h2 h3 by blast
qed

section \<open>Close\<close>

lemmas close_defs = onClose_def authFailure_def errback_def fire_close_def factory_onClose_def emit_def

lemmas example_defs = exampleEnv_def exampleConn_def exampleFactory_def exampleHandlers_def
  exampleReadNode_def newConn_def

text \<open>
  Claim C10. On close exactly one of two things happens. If a failure was recorded and
  the factory's authentication deferred is still there, that deferred is failed with the
  recorded failure, the factory forgets it, and no event is fired. Otherwise exactly one
  \<^verbatim>\<open>close\<close> event is fired, carrying a \<^verbatim>\<open>ConnectionClosedError\<close>, and the
  authentication deferred is left alone: the factory still holds it and no deferred
  changes its state, but for the factory's ready deferred, which the factory's listener
  of the event fails with the reason when it is still there. With no recorded failure the
  reason is the clean-close one, a recorded \<^verbatim>\<open>NodeStreamError\<close> with code 401 gives
  \<^verbatim>\<open>isLoggedOut=True\<close>, and a recorded \<^verbatim>\<open>AuthenticationFailedError\<close> gives
  \<^verbatim>\<open>isAuthDone=False\<close>. In both cases the recorded failure is cleared.
\<close>

theorem onClose_fails_auth_future_or_fires_close:
  "(\<forall>e d. failure c = Some e \<and> authDeferred (factory c) = Some d \<longrightarrow>
       deferreds (onClose env c) = (deferreds c)[d := Failed e]
     \<and> authDeferred (factory (onClose env c)) = None
     \<and> readyDeferred (factory (onClose env c)) = readyDeferred (factory c)
     \<and> effects (onClose env c) = effects c)
 \<and> (failure c = None \<or> authDeferred (factory c) = None \<longrightarrow>
       (\<exists>x. effects (onClose env c) = effects c @ [FireClose x]
          \<and> is_ConnectionClosedError x
          \<and> authDeferred (factory (onClose env c)) = authDeferred (factory c)
          \<and> deferreds (onClose env c)
              = (case readyDeferred (factory c) of
                   None \<Rightarrow> deferreds c
                 | Some r \<Rightarrow> (deferreds c)[r := Failed x])
          \<and> (\<forall>d. readyDeferred (factory c) \<noteq> Some d \<longrightarrow>
                deferreds (onClose env c) ! d = deferreds c ! d)
          \<and> (failure c = None \<longrightarrow>
                x = ConnectionClosedError None None ''Connection Closed Cleanly'')
          \<and> (failure c = Some (NodeStreamError ''401'') \<longrightarrow> isLoggedOut x = Some True)
          \<and> (\<forall>m. failure c = Some (AuthenticationFailedError m) \<longrightarrow>
                isAuthDone x = Some False)))
 \<and> failure (onClose env c) = None"
  by (auto simp: close_defs Let_def split: option.splits exn.splits)

theorem onClose_fails_auth_future_or_fires_close_witness:
  "failure (exampleConn\<lparr>failure := Some (NodeStreamError ''401'')\<rparr>) = Some (NodeStreamError ''401'')
   \<and> authDeferred (factory (exampleConn\<lparr>failure := Some (NodeStreamError ''401'')\<rparr>)) = None
   \<and> (\<exists>x. effects (onClose exampleEnv (exampleConn\<lparr>failure := Some (NodeStreamError ''401'')\<rparr>))
             = [FireClose x] \<and> isLoggedOut x = Some True)
   \<and> failure exampleNewConn = None
   \<and> authDeferred (factory exampleNewConn) = Some 0
   \<and> readyDeferred (factory exampleNewConn) \<noteq> Some 0
   \<and> deferreds (onClose exampleEnv exampleNewConn) ! 0 = deferreds exampleNewConn ! 0
   \<and> failure (exampleNewConn\<lparr>failure := Some (OtherError ''noise'')\<rparr>) = Some (OtherError ''noise'')
   \<and> deferreds (onClose exampleEnv (exampleNewConn\<lparr>failure := Some (OtherError ''noise'')\<rparr>))
       = [Failed (OtherError ''noise'')]
   \<and> effects (onClose exampleEnv (exampleNewConn\<lparr>failure := Some (OtherError ''noise'')\<rparr>)) = []"
proof -
  let ?c1 = "exampleConn\<lparr>failure := Some (NodeStreamError ''401'')\<rparr>"
  let ?c3 = "exampleNewConn\<lparr>failure := Some (OtherError ''noise'')\<rparr>"
  have a: "failure ?c1 = Some (NodeStreamError ''401'')" "authDeferred (factory ?c1) = None"
    "effects ?c1 = []"
    by (simp_all add: example_defs)
  have b: "failure exampleNewConn = None" "authDeferred (factory exampleNewConn) = Some 0"
    "readyDeferred (factory exampleNewConn) \<noteq> Some 0"
    by (simp_all add: exampleNewConn_def example_defs)
  have d: "failure ?c3 = Some (OtherError ''noise'')" "authDeferred (factory ?c3) = Some 0"
    "deferreds ?c3 = [Pending]" "effects ?c3 = []"
    by (simp_all add: exampleNewConn_def example_defs)
  have w1: "\<exists>x. effects (onClose exampleEnv ?c1) = [FireClose x] \<and> isLoggedOut x = Some True"
    using onClose_fails_auth_future_or_fires_close [of ?c1 exampleEnv] a by auto
  have w2: "deferreds (onClose exampleEnv exampleNewConn) ! 0 = deferreds exampleNewConn ! 0"
    using onClose_fails_auth_future_or_fires_close [of exampleNewConn exampleEnv] b by auto
  have w3: "deferreds (onClose exampleEnv ?c3) = [Failed (OtherError ''noise'')]
          \<and> effects (onClose exampleEnv ?c3) = []"
    using onClose_fails_auth_future_or_fires_close [of ?c3 exampleEnv] d by auto
  show ?thesis using a(1,2) b d(1) w1 w2 w3 by blast
qed

section \<open>Pending requests and close\<close>

text \<open>
  Claim C1 as stated fails: a request sent on the authenticated connection is still in
  the pending table, and its deferred still pending, after \<^verbatim>\<open>onClose\<close>.
\<close>

theorem onClose_leaves_pending_requests_counterexample:
  "fst (request exampleEnv exampleConn (Node ''iq'' [(''id'', ''A'')] NoContent)) = Inr 0
   \<and> pendingRequest (onClose exampleEnv
        (snd (request exampleEnv exampleConn (Node ''iq'' [(''id'', ''A'')] NoContent)))) (Some ''A'')
       = Some 0
   \<and> deferreds (onClose exampleEnv
        (snd (request exampleEnv exampleConn (Node ''iq'' [(''id'', ''A'')] NoContent)))) ! 0
       = Pending"
  by (simp add: example_defs request_def newDeferred_def sendMessageNode_def encrypt_with_ad_def
      Node_getitem_def close_defs Let_def)

lemma onClose_pendingRequest: "pendingRequest (onClose env c) = pendingRequest c"
  by (auto simp: close_defs Let_def split: option.splits exn.splits)

lemma onClose_deferreds:
  "authDeferred (factory c) \<noteq> Some d \<Longrightarrow> readyDeferred (factory c) \<noteq> Some d \<Longrightarrow>
   deferreds (onClose env c) ! d = deferreds c ! d"
  by (auto simp: close_defs Let_def split: option.splits exn.splits)

lemma request_pendingRequest:
  "pendingRequest (snd (request env c node)) =
     (pendingRequest c)(Node_getitem node ''id'' \<mapsto> length (deferreds c))"
  by (auto simp: request_def newDeferred_def sendMessageNode_def encrypt_with_ad_def emit_def
      Let_def split: option.splits prod.splits)

text \<open>
  Claim C1, amended. \<^verbatim>\<open>onClose\<close> does not touch the pending-request table, and every
  deferred in it (other than one that is also the factory's authentication or ready
  deferred) keeps the state it had: none is failed. The table is a dict keyed by the node
  id, so it holds at most one slot per id: \<^verbatim>\<open>request(node)\<close> stores the new deferred
  under the id of the node, in place of any slot that was there, and leaves the slots of
  the other ids as they were.
\<close>

theorem onClose_keeps_pending_requests:
  "pendingRequest (onClose env c) = pendingRequest c
   \<and> (\<forall>k d. pendingRequest c k = Some d \<and> authDeferred (factory c) \<noteq> Some d
              \<and> readyDeferred (factory c) \<noteq> Some d \<longrightarrow>
            deferreds (onClose env c) ! d = deferreds c ! d)
   \<and> pendingRequest (snd (request env c node)) (Node_getitem node ''id'')
       = Some (length (deferreds c))
   \<and> (\<forall>k. k \<noteq> Node_getitem node ''id'' \<longrightarrow>
            pendingRequest (snd (request env c node)) k = pendingRequest c k)"
  by (simp add: onClose_pendingRequest onClose_deferreds request_pendingRequest)

theorem onClose_keeps_pending_requests_witness:
  "pendingRequest (exampleConn\<lparr>pendingRequest := [Some ''A'' \<mapsto> 0], deferreds := [Pending]\<rparr>)
      (Some ''A'') = Some 0
   \<and> authDeferred (factory (exampleConn\<lparr>pendingRequest := [Some ''A'' \<mapsto> 0], deferreds := [Pending]\<rparr>)) \<noteq> Some 0
   \<and> readyDeferred (factory (exampleConn\<lparr>pendingRequest := [Some ''A'' \<mapsto> 0], deferreds := [Pending]\<rparr>)) \<noteq> Some 0
   \<and> deferreds (onClose exampleEnv
        (exampleConn\<lparr>pendingRequest := [Some ''A'' \<mapsto> 0], deferreds := [Pending]\<rparr>)) ! 0 = Pending"
  using onClose_keeps_pending_requests
    [of exampleEnv "exampleConn\<lparr>pendingRequest := [Some ''A'' \<mapsto> 0], deferreds := [Pending]\<rparr>"]
  by (simp add: example_defs)

section \<open>Requests before the ciphers exist\<close>

text \<open>
  Claim C5 as stated fails: on a new connection (no send cipher) \<^verbatim>\<open>request\<close> does
  not return a failed deferred but raises \<^verbatim>\<open>AttributeError\<close>, and the pending table
  has gained the slot of the node.
\<close>

theorem request_without_cipher_counterexample:
  "sendCipher (newConn None exampleFactory [] :: unit Conn) = None
   \<and> fst (request exampleEnv (newConn None exampleFactory [])
            (Node ''iq'' [(''id'', ''A'')] NoContent)) = Inl (AttributeError ''encrypt_with_ad'')
   \<and> pendingRequest (newConn None exampleFactory [] :: unit Conn) (Some ''A'') = None
   \<and> pendingRequest (snd (request exampleEnv (newConn None exampleFactory [])
            (Node ''iq'' [(''id'', ''A'')] NoContent))) (Some ''A'') = Some 0"
  by (simp add: example_defs request_def newDeferred_def sendMessageNode_def Node_getitem_def Let_def)

text \<open>
  Claim C5, amended. When the connection has no send cipher, \<^verbatim>\<open>request(node)\<close>
  raises \<^verbatim>\<open>AttributeError\<close> (no deferred is returned) and sends nothing; the
  connection is as before except that a new pending deferred has been created and stored
  in the pending table under the id of the node.
\<close>

theorem request_without_cipher_raises:
  assumes "sendCipher c = None"
  shows "request env c node =
           (Inl (AttributeError ''encrypt_with_ad''),
            c\<lparr>deferreds := deferreds c @ [Pending],
              pendingRequest := (pendingRequest c)(Node_getitem node ''id'' \<mapsto> length (deferreds c))\<rparr>)
       \<and> effects (snd (request env c node)) = effects c"
  using assms by (simp add: request_def newDeferred_def sendMessageNode_def Let_def)

theorem request_without_cipher_raises_witness:
  "sendCipher (newConn None exampleFactory [] :: unit Conn) = None
   \<and> request exampleEnv (newConn None exampleFactory []) (Node ''iq'' [(''id'', ''A'')] NoContent)
       = (Inl (AttributeError ''encrypt_with_ad''),
          (newConn None exampleFactory [])\<lparr>deferreds := [Pending],
              pendingRequest := [Some ''A'' \<mapsto> 0]\<rparr>)"
  using request_without_cipher_raises
    [of "newConn None exampleFactory [] :: unit Conn" exampleEnv "Node ''iq'' [(''id'', ''A'')] NoContent"]
  by (simp add: newConn_def Node_getitem_def)

section \<open>Failure nodes\<close>

lemmas dispatch_defs = messageNodeReceived_def FailureHandler_handleNode_def handleFailure_def
  authDone_def emit_def

text \<open>
  Claim C3 as stated fails: after the authentication, a \<^verbatim>\<open>failure\<close> node with code
  401 records no failure at all, and the close that follows fires the clean-close reason,
  without \<^verbatim>\<open>isLoggedOut\<close>.
\<close>

theorem failure_node_after_auth_counterexample:
  "authDone exampleConn
   \<and> failure (messageNodeReceived exampleEnv exampleConn
        (Node ''failure'' [(''code'', ''401'')] NoContent)) = None
   \<and> effects (onClose exampleEnv (messageNodeReceived exampleEnv exampleConn
        (Node ''failure'' [(''code'', ''401'')] NoContent)))
       = [Dispatched (Node ''failure'' [(''code'', ''401'')] NoContent),
          FireClose (ConnectionClosedError None None ''Connection Closed Cleanly'')]"
  by (simp add: example_defs dispatch_defs close_defs Let_def)

text \<open>
  Claim C3, amended. Once the authentication is done, a node dispatched to
  \<open>FailureHandler_handleNode\<close> only passes through \<^verbatim>\<open>messageNodeReceived\<close>: no
  failure is recorded, and if none was recorded before, the close that follows fires the
  clean-close reason. The close fires \<^verbatim>\<open>ConnectionClosedError(isLoggedOut=True)\<close> when
  the recorded failure is a \<^verbatim>\<open>NodeStreamError\<close> with code 401.
\<close>

theorem failure_node_after_auth_ignored:
  assumes "authDone c"
    and "createNodeHander env (tag node) = Inr (Some FailureHandler_handleNode)"
  shows "messageNodeReceived env c node = emit (Dispatched node) c
       \<and> failure (messageNodeReceived env c node) = failure c
       \<and> (failure c = None \<longrightarrow>
            effects (onClose env (messageNodeReceived env c node))
              = effects c @ [Dispatched node,
                  FireClose (ConnectionClosedError None None ''Connection Closed Cleanly'')])
       \<and> (failure c = Some (NodeStreamError ''401'') \<longrightarrow>
            effects (onClose env c)
              = effects c @ [FireClose (ConnectionClosedError (Some True) None ''Device Logged Out'')])"
  using assms by (auto simp: dispatch_defs close_defs Let_def split: option.splits)

theorem failure_node_after_auth_ignored_witness:
  "authDone exampleConn
   \<and> createNodeHander exampleEnv (tag (Node ''failure'' [(''code'', ''401'')] NoContent))
       = Inr (Some FailureHandler_handleNode)
   \<and> messageNodeReceived exampleEnv exampleConn (Node ''failure'' [(''code'', ''401'')] NoContent)
       = emit (Dispatched (Node ''failure'' [(''code'', ''401'')] NoContent)) exampleConn"
proof -
  have a: "authDone exampleConn" by (simp add: example_defs authDone_def)
  have h: "createNodeHander exampleEnv (tag (Node ''failure'' [(''code'', ''401'')] NoContent))
       = Inr (Some FailureHandler_handleNode)" by (simp add: example_defs)
  show ?thesis using failure_node_after_auth_ignored [OF a h] a h by blast
qed

section \<open>Length prefixes and frames\<close>

lemma length_encodeInt: "length (encodeInt v n) = n"
  by (simp add: encodeInt_def)

lemma encodeInt_Suc: "encodeInt v (Suc n) = encodeInt (v div 256) n @ [word_of_int v]"
proof -
  have "v div 256 ^ (n - i) = v div 256 div 256 ^ (n - 1 - i)" if "i < n" for i
  proof -
    have "n - i = Suc (n - 1 - i)" using that by simp
    then have "(256::int) ^ (n - i) = 256 * 256 ^ (n - 1 - i)" by simp
    then show ?thesis by (simp add: zdiv_zmult2_eq)
  qed
  then show ?thesis by (simp add: encodeInt_def)
qed

lemma decodeInt_snoc:
  "length xs = n \<Longrightarrow> decodeInt (xs @ [b]) (Suc n) = decodeInt xs n * 256 + unat b"
  by (simp add: decodeInt_def)

lemma unat_byte_of_int: "unat (word_of_int v :: byte) = nat (v mod 256)"
  by (simp add: unat_eq_nat_uint uint_word_of_int)

lemma decodeInt_encodeInt: "decodeInt (encodeInt v n) n = nat (v mod 256 ^ n)"
proof (induction n arbitrary: v)
  case 0
  then show ?case by (simp add: decodeInt_def encodeInt_def)
next
  case (Suc n)
  have "decodeInt (encodeInt v (Suc n)) (Suc n)
          = nat (v div 256 mod 256 ^ n) * 256 + nat (v mod 256)"
    by (simp add: encodeInt_Suc decodeInt_snoc length_encodeInt Suc.IH unat_byte_of_int)
  also have "\<dots> = nat (256 * (v div 256 mod 256 ^ n) + v mod 256)"
    by (simp add: nat_add_distrib nat_mult_distrib)
  also have "\<dots> = nat (v mod 256 ^ Suc n)"
    by (simp add: zmod_zmult2_eq)
  finally show ?case .
qed

lemma decodeInt_header:
  assumes "n < 2 ^ 24"
  shows "decodeInt (take 3 (encodeInt (int n) 3 @ rest)) 3 = n"
proof -
  have "take 3 (encodeInt (int n) 3 @ rest) = encodeInt (int n) 3"
    by (simp add: length_encodeInt)
  moreover have "int n mod 256 ^ 3 = int n" using assms by simp
  ultimately show ?thesis by (simp add: decodeInt_encodeInt)
qed

lemma onMessage_loop_Nil: "onMessage_loop env c [] = (None, c)"
  by (simp add: onMessage_loop.simps)

lemma onMessage_loop_frame:
  assumes "length e < 2 ^ 24"
  shows "onMessage_loop env c (encodeInt (int (length e)) 3 @ e @ rest) =
           (case frameReceived env c e of
              (Some x, c1) \<Rightarrow> (Some x, c1)
            | (None, c1) \<Rightarrow> onMessage_loop env c1 rest)"
proof -
  let ?m = "encodeInt (int (length e)) 3 @ e @ rest"
  have ne: "?m \<noteq> []" using length_encodeInt [of "int (length e)" 3] by auto
  have len: "decodeInt (take 3 ?m) 3 = length e" by (rule decodeInt_header [OF assms])
  have d3: "drop 3 ?m = e @ rest" by (simp add: length_encodeInt)
  have dr: "drop (length e + 3) ?m = rest" by (simp add: length_encodeInt)
  show ?thesis
    by (subst onMessage_loop.simps) (simp only: ne len d3 dr Let_def if_False, simp)
qed

lemma frameReceived_node:
  assumes "recvCipher c = Some rc"
    and "aead_decrypt env (ck rc) (cn rc) e = Inr (flag # p)"
    and "(if flag AND FLAG_COMPRESSED (constants env) \<noteq> 0 then inflate env p else Inr p) = Inr b"
    and "readNode env b = Inr node"
  shows "frameReceived env c e =
           (None, messageNodeReceived env (c\<lparr>recvCipher := Some (rc\<lparr>cn := cn rc + 1\<rparr>)\<rparr>) node)"
  using assms by (simp add: frameReceived_def decrypt_with_ad_def Let_def)

lemma frameReceived_no_cipher: "recvCipher c = None \<Longrightarrow> frameReceived env c e = (None, c)"
  by (simp add: frameReceived_def)

lemma onMessage_loop_Cons:
  "onMessage_loop env c (x # xs) =
     (case frameReceived env c (take (decodeInt (take 3 (x # xs)) 3) (drop 3 (x # xs))) of
        (Some e, c1) \<Rightarrow> (Some e, c1)
      | (None, c1) \<Rightarrow> onMessage_loop env c1 (drop (decodeInt (take 3 (x # xs)) 3 + 3) (x # xs)))"
  by (subst onMessage_loop.simps) (simp only: Let_def list.distinct if_False)

lemmas frame_defs = onMessage_def onMessage_loop_Cons onMessage_loop_Nil frameReceived_def
  decrypt_with_ad_def decodeInt_def

lemma encodeInt_2_3: "encodeInt 2 3 = [0, 0, 2]"
  by (simp add: encodeInt_def upt_rec)

text \<open>
  Claim C6 as stated fails: a frame that declares 5 bytes when 2 remain is not rejected;
  the 2 bytes are decrypted and the node they hold is dispatched.
\<close>

theorem onMessage_truncated_frame_counterexample:
  "decodeInt (take 3 [0, 0, 5, 0, 1]) 3 = 5
   \<and> length (drop 3 [0, 0, 5, 0, 1 :: byte]) = 2
   \<and> onMessage exampleEnv exampleConn [0, 0, 5, 0, 1]
       = (None, emit (Dispatched (Node ''iq'' [(''id'', ''A'')] NoContent))
                  (exampleConn\<lparr>recvCipher := Some \<lparr>ck = [2], cn = 1\<rparr>\<rparr>))"
  by (simp add: example_defs frame_defs dispatch_defs Let_def)

text \<open>
  Claim C6, amended. When the 24-bit big-endian length a frame declares exceeds the
  number of bytes that remain after the 3-byte header, the decoder takes the bytes that
  remain as the frame, handles them exactly as it handles a complete frame, and the loop
  ends there; no error is raised for the length.
\<close>

theorem onMessage_truncated_frame:
  assumes "serverHelloDeferred c = None" and "3 \<le> length message"
    and "length message - 3 < decodeInt (take 3 message) 3"
  shows "onMessage env c message = frameReceived env c (drop 3 message)"
proof -
  let ?L = "decodeInt (take 3 message) 3"
  have ne: "message \<noteq> []" using assms(2) by auto
  have t: "take ?L (drop 3 message) = drop 3 message" using assms(3) by simp
  have d: "drop (?L + 3) message = []" using assms(2,3) by simp
  have "onMessage_loop env c message =
      (case frameReceived env c (drop 3 message) of
         (Some x, c1) \<Rightarrow> (Some x, c1)
       | (None, c1) \<Rightarrow> onMessage_loop env c1 [])"
    by (subst onMessage_loop.simps) (simp only: ne t d Let_def if_False)
  then show ?thesis
    by (simp add: onMessage_def assms(1) onMessage_loop_Nil split: prod.splits option.splits)
qed

theorem onMessage_truncated_frame_witness:
  "serverHelloDeferred exampleConn = None
   \<and> 3 \<le> length [0, 0, 5, 0, 1 :: byte]
   \<and> length [0, 0, 5, 0, 1 :: byte] - 3 < decodeInt (take 3 [0, 0, 5, 0, 1]) 3
   \<and> onMessage exampleEnv exampleConn [0, 0, 5, 0, 1] = frameReceived exampleEnv exampleConn [0, 1]"
proof -
  have h1: "serverHelloDeferred exampleConn = None" by (simp add: example_defs)
  have h2: "3 \<le> length [0, 0, 5, 0, 1 :: byte]" by simp
  have h3: "length [0, 0, 5, 0, 1 :: byte] - 3 < decodeInt (take 3 [0, 0, 5, 0, 1]) 3"
    by (simp add: decodeInt_def)
  show ?thesis using onMessage_truncated_frame [OF h1 h2 h3, of exampleEnv] h1 h2 h3 by simp
qed

text \<open>
  Claim C7 as stated fails: before the authentication is done, a first node whose
  handler fails (here a \<^verbatim>\<open>failure\<close> node) makes \<^verbatim>\<open>_handleFailure\<close> clear the
  ciphers, and the second frame of the same message is skipped, although it would decode
  to a node on its own.
\<close>

theorem onMessage_two_frames_counterexample:
  "effects (snd (frameReceived exampleEnv
      (exampleConn\<lparr>factory := exampleFactory\<lparr>authDeferred := Some 0\<rparr>, deferreds := [Pending]\<rparr>)
      [0, 3])) = [Dispatched (Node ''failure'' [(''code'', ''401'')] NoContent)]
   \<and> effects (snd (frameReceived exampleEnv
      (exampleConn\<lparr>factory := exampleFactory\<lparr>authDeferred := Some 0\<rparr>, deferreds := [Pending]\<rparr>)
      [0, 1])) = [Dispatched (Node ''iq'' [(''id'', ''A'')] NoContent)]
   \<and> effects (snd (onMessage exampleEnv
      (exampleConn\<lparr>factory := exampleFactory\<lparr>authDeferred := Some 0\<rparr>, deferreds := [Pending]\<rparr>)
      ([0, 0, 2] @ [0, 3] @ [0, 0, 2] @ [0, 1])))
       = [Dispatched (Node ''failure'' [(''code'', ''401'')] NoContent)]"
  by (simp add: example_defs frame_defs dispatch_defs Let_def)

text \<open>
  Claim C7, amended. Let one inbound binary message hold two ciphertexts, each shorter
  than \<open>2^24\<close> bytes and behind its 3-byte length, and let the first decrypt under the
  receive cipher and decode to \<open>N1\<close>. If the receive cipher is still set after
  \<open>N1\<close> was handled and the second ciphertext decrypts under it and decodes to
  \<open>N2\<close>, then \<^verbatim>\<open>onMessage\<close> hands \<open>N1\<close> and then \<open>N2\<close> to
  \<^verbatim>\<open>messageNodeReceived\<close>, and nothing else. If handling \<open>N1\<close> cleared the receive
  cipher, the second frame is skipped.
\<close>

theorem onMessage_two_frames:
  assumes "serverHelloDeferred c = None" and "recvCipher c = Some rc"
    and "length e1 < 2 ^ 24" and "length e2 < 2 ^ 24"
    and "aead_decrypt env (ck rc) (cn rc) e1 = Inr (f1 # p1)"
    and "(if f1 AND FLAG_COMPRESSED (constants env) \<noteq> 0 then inflate env p1 else Inr p1) = Inr b1"
    and "readNode env b1 = Inr N1"
    and "c1 = messageNodeReceived env (c\<lparr>recvCipher := Some (rc\<lparr>cn := cn rc + 1\<rparr>)\<rparr>) N1"
  shows "(\<forall>rc1 f2 p2 b2 N2.
            recvCipher c1 = Some rc1
          \<and> aead_decrypt env (ck rc1) (cn rc1) e2 = Inr (f2 # p2)
          \<and> (if f2 AND FLAG_COMPRESSED (constants env) \<noteq> 0 then inflate env p2 else Inr p2) = Inr b2
          \<and> readNode env b2 = Inr N2 \<longrightarrow>
            onMessage env c (encodeInt (int (length e1)) 3 @ e1 @ encodeInt (int (length e2)) 3 @ e2)
              = (None, messageNodeReceived env
                         (c1\<lparr>recvCipher := Some (rc1\<lparr>cn := cn rc1 + 1\<rparr>)\<rparr>) N2))
       \<and> (recvCipher c1 = None \<longrightarrow>
            onMessage env c (encodeInt (int (length e1)) 3 @ e1 @ encodeInt (int (length e2)) 3 @ e2)
              = (None, c1))"
proof -
  let ?m = "encodeInt (int (length e1)) 3 @ e1 @ encodeInt (int (length e2)) 3 @ e2"
  have first: "frameReceived env c e1 = (None, c1)"
    using frameReceived_node [OF assms(2,5,6,7)] assms(8) by simp
  have step: "onMessage env c ?m =
      (case frameReceived env c1 e2 of
         (Some x, c2) \<Rightarrow> (Some x, c2)
       | (None, c2) \<Rightarrow> (None, c2))"
    using onMessage_loop_frame [OF assms(3), of env c "encodeInt (int (length e2)) 3 @ e2"]
      onMessage_loop_frame [OF assms(4), of env c1 "[]"]
    by (simp add: onMessage_def assms(1) first onMessage_loop_Nil split: prod.split option.split)
  show ?thesis
  proof (intro conjI allI impI)
    fix rc1 f2 p2 b2 N2
    assume h: "recvCipher c1 = Some rc1
          \<and> aead_decrypt env (ck rc1) (cn rc1) e2 = Inr (f2 # p2)
          \<and> (if f2 AND FLAG_COMPRESSED (constants env) \<noteq> 0 then inflate env p2 else Inr p2) = Inr b2
          \<and> readNode env b2 = Inr N2"
    then have "frameReceived env c1 e2 =
        (None, messageNodeReceived env (c1\<lparr>recvCipher := Some (rc1\<lparr>cn := cn rc1 + 1\<rparr>)\<rparr>) N2)"
      using frameReceived_node [of c1 rc1 env e2 f2 p2 b2 N2] by blast
    then show "onMessage env c ?m
              = (None, messageNodeReceived env
                         (c1\<lparr>recvCipher := Some (rc1\<lparr>cn := cn rc1 + 1\<rparr>)\<rparr>) N2)"
      by (simp add: step)
  next
    assume "recvCipher c1 = None"
    then show "onMessage env c ?m = (None, c1)"
      by (simp add: step frameReceived_no_cipher)
  qed
qed

theorem onMessage_two_frames_witness:
  "serverHelloDeferred exampleConn = None
   \<and> recvCipher exampleConn = Some \<lparr>ck = [2], cn = 0\<rparr>
   \<and> length [0, 1 :: byte] < 2 ^ 24 \<and> length [0, 2 :: byte] < 2 ^ 24
   \<and> aead_decrypt exampleEnv [2] 0 [0, 1] = Inr [0, 1]
   \<and> readNode exampleEnv [1] = Inr (Node ''iq'' [(''id'', ''A'')] NoContent)
   \<and> aead_decrypt exampleEnv [2] 1 [0, 2] = Inr [0, 2]
   \<and> readNode exampleEnv [2] = Inr (Node ''iq'' [(''id'', ''B'')] NoContent)
   \<and> effects (snd (onMessage exampleEnv exampleConn ([0, 0, 2] @ [0, 1] @ [0, 0, 2] @ [0, 2])))
       = [Dispatched (Node ''iq'' [(''id'', ''A'')] NoContent),
          Dispatched (Node ''iq'' [(''id'', ''B'')] NoContent)]"
proof -
  let ?rc = "\<lparr>ck = [2], cn = 0\<rparr>"
  let ?A = "Node ''iq'' [(''id'', ''A'')] NoContent"
  let ?B = "Node ''iq'' [(''id'', ''B'')] NoContent"
  let ?c1 = "messageNodeReceived exampleEnv (exampleConn\<lparr>recvCipher := Some (?rc\<lparr>cn := cn ?rc + 1\<rparr>)\<rparr>) ?A"
  have h1: "serverHelloDeferred exampleConn = None"
    and h2: "recvCipher exampleConn = Some ?rc"
    by (simp_all add: example_defs)
  have h3: "length [0, 1 :: byte] < 2 ^ 24" and h4: "length [0, 2 :: byte] < 2 ^ 24" by simp_all
  have h5: "aead_decrypt exampleEnv (ck ?rc) (cn ?rc) [0, 1] = Inr [0, 1]"
    by (simp add: example_defs)
  have h6: "(if (0::byte) AND FLAG_COMPRESSED (constants exampleEnv) \<noteq> 0
             then inflate exampleEnv [1] else Inr [1]) = Inr [1]"
    by (simp add: example_defs)
  have h7: "readNode exampleEnv [1] = Inr ?A" by (simp add: example_defs)
  have c1: "?c1 = emit (Dispatched ?A) (exampleConn\<lparr>recvCipher := Some \<lparr>ck = [2], cn = 1\<rparr>\<rparr>)"
    by (simp add: example_defs dispatch_defs)
  have g1: "recvCipher ?c1 = Some \<lparr>ck = [2], cn = 1\<rparr>" by (simp add: example_defs dispatch_defs)
  have g2: "aead_decrypt exampleEnv (ck \<lparr>ck = [2], cn = 1\<rparr>) (cn \<lparr>ck = [2], cn = 1\<rparr>) [0, 2] = Inr [0, 2]"
    by (simp add: example_defs)
  have g3: "(if (0::byte) AND FLAG_COMPRESSED (constants exampleEnv) \<noteq> 0
             then inflate exampleEnv [2] else Inr [2]) = Inr [2]"
    by (simp add: example_defs)
  have g4: "readNode exampleEnv [2] = Inr ?B" by (simp add: example_defs)
  have "onMessage exampleEnv exampleConn
          (encodeInt (int (length [0, 1 :: byte])) 3 @ [0, 1] @ encodeInt (int (length [0, 2 :: byte])) 3 @ [0, 2])
        = (None, messageNodeReceived exampleEnv
                   (?c1\<lparr>recvCipher := Some (\<lparr>ck = [2], cn = 1\<rparr>\<lparr>cn := cn \<lparr>ck = [2], cn = 1\<rparr> + 1\<rparr>)\<rparr>) ?B)"
    using onMessage_two_frames [OF h1 h2 h3 h4 h5 h6 h7 refl, THEN conjunct1, rule_format,
        of "\<lparr>ck = [2], cn = 1\<rparr>" 0 "[2]" "[2]" ?B] g1 g2 g3 g4
    by blast
  then have "effects (snd (onMessage exampleEnv exampleConn ([0, 0, 2] @ [0, 1] @ [0, 0, 2] @ [0, 2])))
       = [Dispatched ?A, Dispatched ?B]"
    by (simp add: encodeInt_2_3 c1 example_defs dispatch_defs)
  then show ?thesis using h1 h2 h3 h4 h5 h7 g2 g4 by simp
qed

section \<open>Failures of the handshake\<close>

lemmas handshake_defs = authenticate_def doHandshake_start_def waitServerHello_def
  sendClientHello_def doHandshake_resume_def verifyCertificate_def
  buildClientPayloadHandshake_def startKeepAliveLoop_def newDeferred_def callback_def

lemma doHandshake_start_raise:
  "doHandshake_start env c = (Some e, c1) \<Longrightarrow>
     effects c1 = effects c \<and> factory c1 = factory c \<and> deferreds c1 = deferreds c"
  by (auto simp: doHandshake_start_def waitServerHello_def sendClientHello_def newDeferred_def
      emit_def Let_def split: sum.splits prod.splits option.splits)

lemma doHandshake_resume_raise:
  "doHandshake_resume env c sh = (Some e, c2) \<Longrightarrow>
     effects c2 = effects c \<and> factory c2 = factory c \<and> deferreds c2 = deferreds c"
  by (auto simp: doHandshake_resume_def startKeepAliveLoop_def emit_def Let_def
      split: sum.splits prod.splits option.splits)

lemma handleFailure_fields:
  "failure (handleFailure e False c) = Some e
   \<and> effects (handleFailure e False c) = effects c
   \<and> factory (handleFailure e False c) = factory c
   \<and> deferreds (handleFailure e False c) = deferreds c
   \<and> (authDeferred (factory c) \<noteq> None \<longrightarrow>
        sendCipher (handleFailure e False c) = None \<and> recvCipher (handleFailure e False c) = None)"
  by (simp add: handleFailure_def authDone_def Let_def)

lemma onClose_after_failure:
  "failure c = Some e \<Longrightarrow> authDeferred (factory c) = Some a \<Longrightarrow>
     deferreds (onClose env c) = (deferreds c)[a := Failed e] \<and> effects (onClose env c) = effects c"
  by (simp add: close_defs Let_def)

lemma encodeInt_0_3: "encodeInt 0 3 = [0, 0, 0]"
  by (simp add: encodeInt_def upt_rec)

lemma example_authenticate:
  "authenticate exampleEnv exampleNewConn =
     (Some 0, exampleNewConn\<lparr>noiseHandshakeState := Some (), serverHelloDeferred := Some 1,
        deferreds := [Pending, Pending], effects := [SendMessage [87, 65, 0, 0, 0]]\<rparr>)"
  by (simp add: exampleNewConn_def example_defs handshake_defs emit_def encodeInt_0_3 Let_def)

lemma example_resume_expired:
  "doHandshake_resume exampleEnv
     (callback 1 (exampleNewConn\<lparr>noiseHandshakeState := Some (), serverHelloDeferred := Some 1,
        deferreds := [Pending, Pending], effects := [SendMessage [87, 65, 0, 0, 0]],
        serverHelloDeferred := None\<rparr>))
     \<lparr>sh_ephemeral = [], sh_static = [], sh_payload = [99]\<rparr>
   = (Some (AuthenticationFailedError ''Noise certificate expired''),
      exampleNewConn\<lparr>noiseHandshakeState := Some (), serverHelloDeferred := None,
        deferreds := [Pending, Succeeded], effects := [SendMessage [87, 65, 0, 0, 0]]\<rparr>)"
  by (simp add: exampleNewConn_def example_defs handshake_defs Let_def)

text \<open>
  Claim C2 as stated fails: after an expired certificate the exception is recorded, but
  no close is sent (the only message on the wire is the ClientHello) and the factory's
  authentication deferred is still pending; and an exception of the Noise library is
  recorded as it is, not as an \<^verbatim>\<open>AuthenticationFailedError\<close>.
\<close>

theorem handshake_exception_counterexample:
  "failure (snd (onMessage exampleEnv (snd (authenticate exampleEnv exampleNewConn)) [0, 0, 1, 99]))
     = Some (AuthenticationFailedError ''Noise certificate expired'')
   \<and> effects (snd (onMessage exampleEnv (snd (authenticate exampleEnv exampleNewConn)) [0, 0, 1, 99]))
     = [SendMessage [87, 65, 0, 0, 0]]
   \<and> authDeferred (factory (snd (onMessage exampleEnv (snd (authenticate exampleEnv exampleNewConn))
        [0, 0, 1, 99]))) = Some 0
   \<and> deferreds (snd (onMessage exampleEnv (snd (authenticate exampleEnv exampleNewConn))
        [0, 0, 1, 99])) ! 0 = Pending
   \<and> failure (snd (onMessage exampleEnv (snd (authenticate exampleEnv exampleNewConn)) [0, 0, 0]))
     = Some (OtherError ''noise'')"
  by (simp add: example_authenticate onMessage_def)
     (simp add: exampleNewConn_def example_defs handshake_defs handleFailure_def authDone_def Let_def)

text \<open>
  Claim C2, amended. For every exception that ends a part of \<^verbatim>\<open>_doHandshake\<close>
  (sending the ClientHello, whether started by \<^verbatim>\<open>authenticate\<close> or by \<^verbatim>\<open>onOpen\<close>, or
  the part that runs on the ServerHello: reading it, verifying the certificate, building
  and sending the ClientFinish), the errback records that very exception as the failure
  of the connection and, while the authentication deferred is pending, clears both
  ciphers. Nothing is sent, no close is requested, and the authentication deferred stays
  pending; \<^verbatim>\<open>authenticate\<close> and \<^verbatim>\<open>onMessage\<close> return normally. When the connection is
  closed afterwards, \<^verbatim>\<open>onClose\<close> fails the authentication deferred with the recorded
  exception and fires no event. An exception of parsing the awaited ServerHello message
  is raised before \<^verbatim>\<open>_doHandshake\<close> is resumed: it leaves \<^verbatim>\<open>onMessage\<close>, nothing is
  recorded, and the connection goes on awaiting the ServerHello.
\<close>

theorem handshake_exception_recorded:
  "(\<forall>e c1. doHandshake_start env c = (Some e, c1) \<longrightarrow>
       fst (authenticate env c) = authDeferred (factory c)
     \<and> failure (snd (authenticate env c)) = Some e
     \<and> effects (snd (authenticate env c)) = effects c
     \<and> factory (snd (authenticate env c)) = factory c
     \<and> deferreds (snd (authenticate env c)) = deferreds c
     \<and> (authDeferred (factory c) \<noteq> None \<longrightarrow>
          sendCipher (snd (authenticate env c)) = None
        \<and> recvCipher (snd (authenticate env c)) = None)
     \<and> (\<forall>a. authDeferred (factory c) = Some a \<longrightarrow>
          deferreds (onClose env (snd (authenticate env c))) = (deferreds c)[a := Failed e]
        \<and> effects (onClose env (snd (authenticate env c))) = effects c))
 \<and> (\<forall>d sh e c2.
       serverHelloDeferred c = Some d
     \<and> parseServerHello env (drop 3 message) = Inr sh
     \<and> doHandshake_resume env (callback d (c\<lparr>serverHelloDeferred := None\<rparr>)) sh = (Some e, c2) \<longrightarrow>
       (\<exists>c'. onMessage env c message = (None, c')
          \<and> failure c' = Some e
          \<and> effects c' = effects c
          \<and> factory c' = factory c
          \<and> deferreds c' = (deferreds c)[d := Succeeded]
          \<and> (authDeferred (factory c) \<noteq> None \<longrightarrow> sendCipher c' = None \<and> recvCipher c' = None)
          \<and> (\<forall>a. authDeferred (factory c) = Some a \<longrightarrow>
                deferreds (onClose env c') = (deferreds c)[d := Succeeded, a := Failed e]
              \<and> effects (onClose env c') = effects c)))
 \<and> (\<forall>d e. serverHelloDeferred c = Some d
           \<and> parseServerHello env (drop 3 message) = Inl e \<longrightarrow>
         onMessage env c message = (Some e, c))
 \<and> (authState c \<noteq> None \<longrightarrow> onOpen env c = snd (authenticate env c))"
proof (intro conjI allI impI)
  fix e c1
  assume h: "doHandshake_start env c = (Some e, c1)"
  have a: "snd (authenticate env c) = handleFailure e False c1"
    and b: "fst (authenticate env c) = authDeferred (factory (handleFailure e False c1))"
    by (simp_all add: authenticate_def h Let_def)
  note k = doHandshake_start_raise [OF h] handleFailure_fields [of e c1]
  show "fst (authenticate env c) = authDeferred (factory c)" using b k by simp
  show "failure (snd (authenticate env c)) = Some e" using a k by simp
  show "effects (snd (authenticate env c)) = effects c" using a k by simp
  show "factory (snd (authenticate env c)) = factory c" using a k by simp
  show "deferreds (snd (authenticate env c)) = deferreds c" using a k by simp
  show "sendCipher (snd (authenticate env c)) = None"
    if "authDeferred (factory c) \<noteq> None" using a k that by simp
  show "recvCipher (snd (authenticate env c)) = None"
    if "authDeferred (factory c) \<noteq> None" using a k that by simp
  show "deferreds (onClose env (snd (authenticate env c))) = (deferreds c)[a := Failed e]"
    if "authDeferred (factory c) = Some a" for a
    using onClose_after_failure [of "handleFailure e False c1" e a env] a k that by simp
  show "effects (onClose env (snd (authenticate env c))) = effects c"
    if "authDeferred (factory c) = Some a" for a
    using onClose_after_failure [of "handleFailure e False c1" e a env] a k that by simp
next
  fix d sh e c2
  assume h: "serverHelloDeferred c = Some d
     \<and> parseServerHello env (drop 3 message) = Inr sh
     \<and> doHandshake_resume env (callback d (c\<lparr>serverHelloDeferred := None\<rparr>)) sh = (Some e, c2)"
  let ?c' = "handleFailure e False c2"
  have om: "onMessage env c message = (None, ?c')"
    using h by (simp add: onMessage_def Let_def)
  have k2: "effects c2 = effects c" "factory c2 = factory c"
    "deferreds c2 = (deferreds c)[d := Succeeded]"
    using doHandshake_resume_raise [of env "callback d (c\<lparr>serverHelloDeferred := None\<rparr>)" sh e c2] h
    by (simp_all add: callback_def)
  note hf = handleFailure_fields [of e c2]
  have cl: "deferreds (onClose env ?c') = (deferreds c)[d := Succeeded, a := Failed e]
              \<and> effects (onClose env ?c') = effects c"
    if "authDeferred (factory c) = Some a" for a
    using onClose_after_failure [of ?c' e a env] hf k2 that by simp
  show "\<exists>c'. onMessage env c message = (None, c')
          \<and> failure c' = Some e
          \<and> effects c' = effects c
          \<and> factory c' = factory c
          \<and> deferreds c' = (deferreds c)[d := Succeeded]
          \<and> (authDeferred (factory c) \<noteq> None \<longrightarrow> sendCipher c' = None \<and> recvCipher c' = None)
          \<and> (\<forall>a. authDeferred (factory c) = Some a \<longrightarrow>
                deferreds (onClose env c') = (deferreds c)[d := Succeeded, a := Failed e]
              \<and> effects (onClose env c') = effects c)"
    apply (rule exI [of _ ?c'])
    using om hf k2 cl by simp
next
  fix d e
  assume "serverHelloDeferred c = Some d \<and> parseServerHello env (drop 3 message) = Inl e"
  then show "onMessage env c message = (Some e, c)"
    by (simp add: onMessage_def)
next
  assume "authState c \<noteq> None"
  then show "onOpen env c = snd (authenticate env c)"
    by (auto simp: onOpen_def authenticate_def Let_def split: prod.splits option.splits)
qed

theorem handshake_exception_recorded_witness:
  "serverHelloDeferred (snd (authenticate exampleEnv exampleNewConn)) = Some 1
   \<and> parseServerHello exampleEnv (drop 3 [0, 0, 1, 99])
       = Inr \<lparr>sh_ephemeral = [], sh_static = [], sh_payload = [99]\<rparr>
   \<and> authDeferred (factory (snd (authenticate exampleEnv exampleNewConn))) = Some 0
   \<and> (\<exists>c'. onMessage exampleEnv (snd (authenticate exampleEnv exampleNewConn)) [0, 0, 1, 99] = (None, c')
          \<and> failure c' = Some (AuthenticationFailedError ''Noise certificate expired'')
          \<and> deferreds (onClose exampleEnv c')
              = [Failed (AuthenticationFailedError ''Noise certificate expired''), Succeeded])"
proof -
  let ?c = "snd (authenticate exampleEnv exampleNewConn)"
  let ?sh = "\<lparr>sh_ephemeral = [], sh_static = [], sh_payload = [99]\<rparr>"
  have h1: "serverHelloDeferred ?c = Some 1" by (simp add: example_authenticate)
  have h2: "parseServerHello exampleEnv (drop 3 [0, 0, 1, 99]) = Inr ?sh"
    by (simp add: example_defs)
  have h3: "doHandshake_resume exampleEnv (callback 1 (?c\<lparr>serverHelloDeferred := None\<rparr>)) ?sh
      = (Some (AuthenticationFailedError ''Noise certificate expired''),
         exampleNewConn\<lparr>noiseHandshakeState := Some (), serverHelloDeferred := None,
           deferreds := [Pending, Succeeded], effects := [SendMessage [87, 65, 0, 0, 0]]\<rparr>)"
    using example_resume_expired by (simp add: example_authenticate)
  have h4: "authDeferred (factory ?c) = Some 0"
    unfolding example_authenticate by (simp add: exampleNewConn_def example_defs)
  have d: "deferreds ?c = [Pending, Pending]" by (simp add: example_authenticate)
  from handshake_exception_recorded [of exampleEnv ?c "[0, 0, 1, 99]", THEN conjunct2,
      THEN conjunct1, rule_format, OF conjI [OF h1 conjI [OF h2 h3]]]
  obtain c' where c': "onMessage exampleEnv ?c [0, 0, 1, 99] = (None, c')"
      "failure c' = Some (AuthenticationFailedError ''Noise certificate expired'')"
      "\<forall>a. authDeferred (factory ?c) = Some a \<longrightarrow>
          deferreds (onClose exampleEnv c')
            = (deferreds ?c)[1 := Succeeded, a := Failed (AuthenticationFailedError ''Noise certificate expired'')]
          \<and> effects (onClose exampleEnv c') = effects ?c"
    by blast
  from c'(3) h4 have "deferreds (onClose exampleEnv c')
            = (deferreds ?c)[1 := Succeeded, 0 := Failed (AuthenticationFailedError ''Noise certificate expired'')]"
    by blast
  then have "deferreds (onClose exampleEnv c')
            = [Failed (AuthenticationFailedError ''Noise certificate expired''), Succeeded]"
    by (simp add: d)
  then show ?thesis using h1 h2 h4 c'(1,2) by blast
qed

section \<open>Expiry of the certificate\<close>

text \<open>
  Claim C4 as stated fails: a certificate whose \<^verbatim>\<open>expires\<close> equals the current time
  passes the verification, and the handshake goes on to send the ClientFinish.
\<close>

theorem verifyCertificate_expires_counterexample:
  "now exampleEnv = 100
   \<and> verifyCertificate exampleEnv [7] \<lparr>details = [100], signature = []\<rparr>
        \<lparr>issuer = ''WhatsAppLongTerm1'', key = [7], expires = Some 100\<rparr> = None
   \<and> failure (snd (onMessage exampleEnv (snd (authenticate exampleEnv exampleNewConn)) [0, 0, 1, 100]))
       = None
   \<and> effects (snd (onMessage exampleEnv (snd (authenticate exampleEnv exampleNewConn)) [0, 0, 1, 100]))
       = [SendMessage [87, 65, 0, 0, 0], SendMessage [0, 0, 1, 0]]"
  by (simp add: example_authenticate onMessage_def)
     (simp add: exampleNewConn_def example_defs handshake_defs emit_def encodeInt_def upt_rec Let_def)

text \<open>
  Claim C4, amended. For a certificate that passes the checks of issuer, signature and
  key: with no \<^verbatim>\<open>expires\<close> field, or with \<^verbatim>\<open>expires\<close> greater than or equal to
  the current time in whole seconds, the verification succeeds; with \<^verbatim>\<open>expires\<close>
  less than the current time it raises
  \<^verbatim>\<open>AuthenticationFailedError("Noise certificate expired")\<close>, and \<^verbatim>\<open>_doHandshake\<close>
  ends with that exception without sending a ClientFinish.
\<close>

theorem verifyCertificate_expires:
  assumes "issuer certDetails = CERTIFICATE_ISSUER (constants env)"
    and "verifySignature env (WHATSAPP_LONG_TERM (constants env)) (details cert) (signature cert)"
    and "key certDetails = rs"
  shows "(expires certDetails = None \<longrightarrow> verifyCertificate env rs cert certDetails = None)
       \<and> (\<forall>ex. expires certDetails = Some ex \<and> now env \<le> ex \<longrightarrow>
             verifyCertificate env rs cert certDetails = None)
       \<and> (\<forall>ex. expires certDetails = Some ex \<and> ex < now env \<longrightarrow>
             verifyCertificate env rs cert certDetails
               = Some (AuthenticationFailedError ''Noise certificate expired'')
           \<and> (\<forall>c hs hs1 buf sh.
                 noiseHandshakeState c = Some hs
               \<and> noise_read_message env hs (sh_ephemeral sh @ sh_static sh @ sh_payload sh)
                   = Inr (buf, hs1)
               \<and> parseNoiseCertificate env buf = Inr cert
               \<and> parseDetails env (details cert) = Inr certDetails
               \<and> noise_rs env hs1 = rs \<longrightarrow>
                 doHandshake_resume env c sh
                   = (Some (AuthenticationFailedError ''Noise certificate expired''),
                      c\<lparr>noiseHandshakeState := Some hs1\<rparr>)))"
  using assms by (auto simp: verifyCertificate_def doHandshake_resume_def Let_def)

theorem verifyCertificate_expires_witness:
  "issuer \<lparr>issuer = ''WhatsAppLongTerm1'', key = [7], expires = Some 99\<rparr>
      = CERTIFICATE_ISSUER (constants exampleEnv)
   \<and> verifySignature exampleEnv (WHATSAPP_LONG_TERM (constants exampleEnv)) [99] []
   \<and> 99 < now exampleEnv
   \<and> verifyCertificate exampleEnv [7] \<lparr>details = [99], signature = []\<rparr>
        \<lparr>issuer = ''WhatsAppLongTerm1'', key = [7], expires = Some 99\<rparr>
       = Some (AuthenticationFailedError ''Noise certificate expired'')"
proof -
  let ?d = "\<lparr>issuer = ''WhatsAppLongTerm1'', key = [7::byte], expires = Some 99\<rparr>"
  let ?cert = "\<lparr>details = [99::byte], signature = []\<rparr>"
  have h1: "issuer ?d = CERTIFICATE_ISSUER (constants exampleEnv)" by (simp add: example_defs)
  have h2: "verifySignature exampleEnv (WHATSAPP_LONG_TERM (constants exampleEnv))
              (details ?cert) (signature ?cert)" by (simp add: example_defs)
  have h3: "key ?d = [7]" by simp
  have h4: "expires ?d = Some 99 \<and> 99 < now exampleEnv" by (simp add: example_defs)
  from verifyCertificate_expires [OF h1 h2 h3, THEN conjunct2, THEN conjunct2, rule_format, OF h4]
  have "verifyCertificate exampleEnv [7] ?cert ?d
       = Some (AuthenticationFailedError ''Noise certificate expired'')" by blast
  then show ?thesis using h1 h2 h4 by simp
qed

section \<open>The client payload in its two modes\<close>

lemma encodeInt_5_1: "encodeInt 5 (Suc 0) = [5]"
  by (simp add: encodeInt_def)

text \<open>
  Claim C8 as stated fails for some AuthStates with \<open>me\<close>: when the user part of the
  jid is not a numeral, \<^verbatim>\<open>int(user)\<close> raises, and when it is a numeral outside the
  range of the \<^verbatim>\<open>username\<close> field (here \<open>2^64\<close>), the assignment raises; the builder
  returns no payload.
\<close>

theorem buildClientPayloadHandshake_counterexample:
  "me ((newAuthState exampleEnv)\<lparr>me := Some [''jid'' \<mapsto> ''abc@s.whatsapp.net'']\<rparr>)
     = Some [''jid'' \<mapsto> ''abc@s.whatsapp.net'']
   \<and> buildClientPayloadHandshake exampleEnv (exampleConn\<lparr>authState :=
        Some ((newAuthState exampleEnv)\<lparr>me := Some [''jid'' \<mapsto> ''abc@s.whatsapp.net'']\<rparr>)\<rparr>)
       = Inl (ValueError ''invalid literal for int()'')
   \<and> buildClientPayloadHandshake exampleEnv (exampleConn\<lparr>authState :=
        Some ((newAuthState exampleEnv)\<lparr>me :=
          Some [''jid'' \<mapsto> ''18446744073709551616@s.whatsapp.net'']\<rparr>)\<rparr>)
       = Inl (ValueError ''Value out of range'')"
  by (simp add: example_defs buildClientPayloadHandshake_def)

text \<open>
  Claim C8, amended. The builder selects its mode by the presence of \<open>me\<close> in the
  AuthState. Without \<open>me\<close> it returns a payload with \<^verbatim>\<open>passive=False\<close> and a
  \<^verbatim>\<open>CompanionRegData\<close> whose \<^verbatim>\<open>eRegid\<close> is the registration id on 4 bytes,
  big-endian, \<^verbatim>\<open>eKeytype\<close> the single byte 5, \<^verbatim>\<open>eIdent\<close> the public key of the
  signed identity key, \<^verbatim>\<open>eSkeyId\<close> the id of the signed prekey on 3 bytes,
  \<^verbatim>\<open>eSkeyVal\<close> its public key and \<^verbatim>\<open>eSkeySig\<close> its signature. With \<open>me\<close> it
  returns a payload exactly when \<open>me\<close> has a jid, the jid splits, and its user and
  device parts are integers in the ranges of the fields \<^verbatim>\<open>username\<close> and
  \<^verbatim>\<open>device\<close>; the payload then has \<^verbatim>\<open>passive=True\<close>, no \<^verbatim>\<open>regData\<close>, and
  \<^verbatim>\<open>username\<close> and \<^verbatim>\<open>device\<close> those integers. Otherwise the builder raises.
\<close>

theorem buildClientPayloadHandshake_modes:
  assumes "authState c = Some a"
  shows "(me a = None \<longrightarrow>
           (\<exists>p rd. buildClientPayloadHandshake env c = Inr p
              \<and> cp_passive p = False \<and> regData p = Some rd
              \<and> username p = None \<and> device p = None
              \<and> eRegid rd = encodeInt (registrationId a) 4 \<and> length (eRegid rd) = 4
              \<and> decodeInt (eRegid rd) 4 = nat (registrationId a mod 2 ^ 32)
              \<and> eKeytype rd = [5]
              \<and> eIdent rd = publicKey (signedIdentityKey a)
              \<and> eSkeyId rd = encodeInt (getId (signedPrekey a)) 3 \<and> length (eSkeyId rd) = 3
              \<and> decodeInt (eSkeyId rd) 3 = nat (getId (signedPrekey a) mod 2 ^ 24)
              \<and> eSkeyVal rd = publicKey (getKeyPair (signedPrekey a))
              \<and> eSkeySig rd = getSignature (signedPrekey a)))
       \<and> (\<forall>m j user agent dev server u d.
             me a = Some m \<and> m ''jid'' = Some j
           \<and> splitJid env j = Inr (user, agent, dev, server)
           \<and> int_of_str env user = Inr u \<and> pb_in_range (username_type env) u
           \<and> int_of_str env dev = Inr d \<and> pb_in_range (device_type env) d \<longrightarrow>
             (\<exists>p. buildClientPayloadHandshake env c = Inr p
                \<and> cp_passive p = True \<and> regData p = None
                \<and> username p = Some u \<and> device p = Some d))
       \<and> (\<forall>m p. me a = Some m \<and> buildClientPayloadHandshake env c = Inr p \<longrightarrow>
             cp_passive p = True \<and> regData p = None
           \<and> (\<exists>j user agent dev server u d.
                 m ''jid'' = Some j
               \<and> splitJid env j = Inr (user, agent, dev, server)
               \<and> int_of_str env user = Inr u \<and> pb_in_range (username_type env) u
               \<and> int_of_str env dev = Inr d \<and> pb_in_range (device_type env) d
               \<and> username p = Some u \<and> device p = Some d))"
proof (intro conjI allI impI)
  assume "me a = None"
  then have b: "buildClientPayloadHandshake env c =
      Inr \<lparr> connectReason = 1, connectType = 1, cp_passive = False,
            regData = Some (buildCompanionRegData env a), username = None, device = None,
            userAgent = buildUserAgent (constants env), webInfo = \<lparr>webSubPlatform = 0\<rparr> \<rparr>"
    using assms by (simp add: buildClientPayloadHandshake_def)
  have p32: "(256::int) ^ 4 = 2 ^ 32" and p24: "(256::int) ^ 3 = 2 ^ 24" by simp_all
  show "\<exists>p rd. buildClientPayloadHandshake env c = Inr p
              \<and> cp_passive p = False \<and> regData p = Some rd
              \<and> username p = None \<and> device p = None
              \<and> eRegid rd = encodeInt (registrationId a) 4 \<and> length (eRegid rd) = 4
              \<and> decodeInt (eRegid rd) 4 = nat (registrationId a mod 2 ^ 32)
              \<and> eKeytype rd = [5]
              \<and> eIdent rd = publicKey (signedIdentityKey a)
              \<and> eSkeyId rd = encodeInt (getId (signedPrekey a)) 3 \<and> length (eSkeyId rd) = 3
              \<and> decodeInt (eSkeyId rd) 3 = nat (getId (signedPrekey a) mod 2 ^ 24)
              \<and> eSkeyVal rd = publicKey (getKeyPair (signedPrekey a))
              \<and> eSkeySig rd = getSignature (signedPrekey a)"
    unfolding b
    by (simp add: buildCompanionRegData_def Let_def length_encodeInt decodeInt_encodeInt
        encodeInt_5_1 p32 p24 del: power_numeral)
next
  fix m j user agent dev server u d
  assume "me a = Some m \<and> m ''jid'' = Some j
           \<and> splitJid env j = Inr (user, agent, dev, server)
           \<and> int_of_str env user = Inr u \<and> pb_in_range (username_type env) u
           \<and> int_of_str env dev = Inr d \<and> pb_in_range (device_type env) d"
  then show "\<exists>p. buildClientPayloadHandshake env c = Inr p
                \<and> cp_passive p = True \<and> regData p = None
                \<and> username p = Some u \<and> device p = Some d"
    using assms by (simp add: buildClientPayloadHandshake_def)
next
  fix m p
  assume h: "me a = Some m \<and> buildClientPayloadHandshake env c = Inr p"
  then have r: "cp_passive p = True \<and> regData p = None
           \<and> (\<exists>j user agent dev server u d.
                 m ''jid'' = Some j
               \<and> splitJid env j = Inr (user, agent, dev, server)
               \<and> int_of_str env user = Inr u \<and> pb_in_range (username_type env) u
               \<and> int_of_str env dev = Inr d \<and> pb_in_range (device_type env) d
               \<and> username p = Some u \<and> device p = Some d)"
    using assms
    by (auto simp: buildClientPayloadHandshake_def
        split: option.splits sum.splits prod.splits if_splits)
  show "cp_passive p = True" using r by blast
  show "regData p = None" using r by blast
  show "\<exists>j user agent dev server u d.
                 m ''jid'' = Some j
               \<and> splitJid env j = Inr (user, agent, dev, server)
               \<and> int_of_str env user = Inr u \<and> pb_in_range (username_type env) u
               \<and> int_of_str env dev = Inr d \<and> pb_in_range (device_type env) d
               \<and> username p = Some u \<and> device p = Some d" using r by blast
qed

lemma encodeInt_258_4: "encodeInt 258 4 = [0, 0, 1, 2]"
  by (simp add: encodeInt_def upt_rec)

theorem buildClientPayloadHandshake_modes_witness:
  "authState exampleConn = Some (newAuthState exampleEnv)
   \<and> me (newAuthState exampleEnv) = None
   \<and> (\<exists>p rd. buildClientPayloadHandshake exampleEnv exampleConn = Inr p
         \<and> cp_passive p = False \<and> regData p = Some rd \<and> eRegid rd = [0, 0, 1, 2])
   \<and> authState (exampleConn\<lparr>authState :=
        Some ((newAuthState exampleEnv)\<lparr>me := Some [''jid'' \<mapsto> ''62812@s.whatsapp.net'']\<rparr>)\<rparr>)
       = Some ((newAuthState exampleEnv)\<lparr>me := Some [''jid'' \<mapsto> ''62812@s.whatsapp.net'']\<rparr>)
   \<and> splitJid exampleEnv ''62812@s.whatsapp.net'' = Inr (''62812'', '''', ''0'', ''s.whatsapp.net'')
   \<and> int_of_str exampleEnv ''62812'' = Inr 62812 \<and> pb_in_range (username_type exampleEnv) 62812
   \<and> int_of_str exampleEnv ''0'' = Inr 0 \<and> pb_in_range (device_type exampleEnv) 0
   \<and> (\<exists>p. buildClientPayloadHandshake exampleEnv (exampleConn\<lparr>authState :=
        Some ((newAuthState exampleEnv)\<lparr>me := Some [''jid'' \<mapsto> ''62812@s.whatsapp.net'']\<rparr>)\<rparr>) = Inr p
         \<and> cp_passive p = True \<and> regData p = None
         \<and> username p = Some 62812 \<and> device p = Some 0)"
proof -
  let ?a = "newAuthState exampleEnv"
  let ?m = "[''jid'' \<mapsto> ''62812@s.whatsapp.net'']"
  let ?a2 = "?a\<lparr>me := Some ?m\<rparr>"
  let ?c2 = "exampleConn\<lparr>authState := Some ?a2\<rparr>"
  have h1: "authState exampleConn = Some ?a" by (simp add: example_defs)
  have h2: "me ?a = None" by (simp add: example_defs)
  have r: "registrationId ?a = 258" by (simp add: example_defs)
  from buildClientPayloadHandshake_modes [OF h1, of exampleEnv, THEN conjunct1, rule_format, OF h2]
  obtain p rd where "buildClientPayloadHandshake exampleEnv exampleConn = Inr p"
    "cp_passive p = False" "regData p = Some rd" "eRegid rd = encodeInt (registrationId ?a) 4"
    by blast
  then have w1: "\<exists>p rd. buildClientPayloadHandshake exampleEnv exampleConn = Inr p
         \<and> cp_passive p = False \<and> regData p = Some rd \<and> eRegid rd = [0, 0, 1, 2]"
    by (simp add: r encodeInt_258_4)
  have g1: "authState ?c2 = Some ?a2" by simp
  have g2: "me ?a2 = Some ?m \<and> ?m ''jid'' = Some ''62812@s.whatsapp.net''
           \<and> splitJid exampleEnv ''62812@s.whatsapp.net'' = Inr (''62812'', '''', ''0'', ''s.whatsapp.net'')
           \<and> int_of_str exampleEnv ''62812'' = Inr 62812 \<and> pb_in_range (username_type exampleEnv) 62812
           \<and> int_of_str exampleEnv ''0'' = Inr 0 \<and> pb_in_range (device_type exampleEnv) 0"
    by (simp add: example_defs)
  from buildClientPayloadHandshake_modes [OF g1, of exampleEnv, THEN conjunct2, THEN conjunct1,
      rule_format, OF g2]
  have w2: "\<exists>p. buildClientPayloadHandshake exampleEnv ?c2 = Inr p
         \<and> cp_passive p = True \<and> regData p = None
         \<and> username p = Some 62812 \<and> device p = Some 0" .
  show ?thesis using h1 h2 w1 g1 g2 w2 by blast
qed

end
